theory Spec2Isabelle
  imports Complex_Main "HOL-Library.Log_Nat" "HOL-Library.Word"
begin

section \<open>The FLO-2D driver of MDAL (mdal\_flo2d.cpp)\<close>

subsection \<open>Numbers, status codes and failures\<close>

text \<open>
  A C++ \<open>double\<close> is not-a-number, plus or minus infinity, or a number. The
  numbers are written as reals; the two signed zeros are not told apart. The
  arithmetic of the source rounds: the result of an addition, subtraction,
  multiplication or division of numbers is the exact result rounded to binary64.
\<close>

datatype double = NaN | PInf | MInf | Num real

fun isnan :: "double \<Rightarrow> bool" where
  "isnan NaN = True"
| "isnan PInf = False"
| "isnan MInf = False"
| "isnan (Num r) = False"

text \<open>
  Rounding to binary64, to the nearest value with ties to even: a number other than 0
  has the form \<open>m * 2 ^ e\<close> with \<open>m < 2 ^ 53\<close> and \<open>- 1074 \<le> e\<close>; a result of
  magnitude \<open>2 ^ 1024\<close> or more is an infinity. \<open>ilog2 a\<close> is the exponent of the
  leading bit of \<open>a > 0\<close>.
\<close>

definition pow2 :: "int \<Rightarrow> real" where
  "pow2 e = (if 0 \<le> e then 2 ^ nat e else 1 / 2 ^ nat (- e))"

definition ilog2 :: "real \<Rightarrow> int" where
  "ilog2 a = (if 1 \<le> a then bitlen \<lfloor>a\<rfloor> - 1 else - bitlen (\<lceil>1 / a\<rceil> - 1))"

definition round_half_even :: "real \<Rightarrow> int" where
  "round_half_even q =
     (let n = \<lfloor>q\<rfloor>; r = q - of_int n
      in if r < 1 / 2 then n else if 1 / 2 < r then n + 1 else if even n then n else n + 1)"

definition binary64 :: "real \<Rightarrow> double" where
  "binary64 x =
     (if x = 0 then Num 0
      else
        let a = \<bar>x\<bar>;
            e = max (ilog2 a - 52) (- 1074);
            m = of_int (round_half_even (a / pow2 e)) * pow2 e
        in if 2 ^ 1024 \<le> m then (if 0 < x then PInf else MInf)
           else Num (if 0 < x then m else - m))"

fun dadd :: "double \<Rightarrow> double \<Rightarrow> double" where
  "dadd (Num a) (Num b) = binary64 (a + b)"
| "dadd NaN _ = NaN"
| "dadd _ NaN = NaN"
| "dadd PInf MInf = NaN"
| "dadd MInf PInf = NaN"
| "dadd PInf _ = PInf"
| "dadd _ PInf = PInf"
| "dadd MInf _ = MInf"
| "dadd _ MInf = MInf"

fun dsub :: "double \<Rightarrow> double \<Rightarrow> double" where
  "dsub (Num a) (Num b) = binary64 (a - b)"
| "dsub NaN _ = NaN"
| "dsub _ NaN = NaN"
| "dsub PInf PInf = NaN"
| "dsub MInf MInf = NaN"
| "dsub PInf _ = PInf"
| "dsub _ PInf = MInf"
| "dsub MInf _ = MInf"
| "dsub _ MInf = PInf"

fun dmul :: "double \<Rightarrow> double \<Rightarrow> double" where
  "dmul (Num a) (Num b) = binary64 (a * b)"
| "dmul NaN _ = NaN"
| "dmul _ NaN = NaN"
| "dmul PInf (Num b) = (if b = 0 then NaN else if 0 < b then PInf else MInf)"
| "dmul MInf (Num b) = (if b = 0 then NaN else if 0 < b then MInf else PInf)"
| "dmul (Num a) PInf = (if a = 0 then NaN else if 0 < a then PInf else MInf)"
| "dmul (Num a) MInf = (if a = 0 then NaN else if 0 < a then MInf else PInf)"
| "dmul PInf PInf = PInf"
| "dmul MInf MInf = PInf"
| "dmul PInf MInf = MInf"
| "dmul MInf PInf = MInf"

fun ddiv2 :: "double \<Rightarrow> double" where
  "ddiv2 (Num a) = binary64 (a / 2)"
| "ddiv2 PInf = PInf"
| "ddiv2 MInf = MInf"
| "ddiv2 NaN = NaN"

fun fabs :: "double \<Rightarrow> double" where
  "fabs (Num a) = Num \<bar>a\<bar>"
| "fabs PInf = PInf"
| "fabs MInf = PInf"
| "fabs NaN = NaN"

fun dless :: "double \<Rightarrow> double \<Rightarrow> bool" where
  "dless (Num a) (Num b) = (a < b)"
| "dless NaN _ = False"
| "dless _ NaN = False"
| "dless _ MInf = False"
| "dless MInf _ = True"
| "dless PInf _ = False"
| "dless _ PInf = True"

fun dle :: "double \<Rightarrow> double \<Rightarrow> bool" where
  "dle (Num a) (Num b) = (a \<le> b)"
| "dle NaN _ = False"
| "dle _ NaN = False"
| "dle MInf _ = True"
| "dle _ MInf = False"
| "dle _ PInf = True"
| "dle PInf _ = False"

text \<open>The status codes the driver throws or reports.\<close>

datatype MDAL_Status =
    Err_FileNotFound
  | Err_UnknownFormat
  | Err_IncompatibleMesh
  | Err_InvalidData

text \<open>
  A call of the driver either returns (\<open>Inr\<close>) or fails (\<open>Inl\<close>): by throwing a status
  code, by reading or writing a vector outside its bounds (undefined behaviour in C++),
  or by a failed \<open>assert\<close>.
\<close>

datatype failure = Thrown MDAL_Status | OutOfBounds | AssertFailed

subsection \<open>Sentinel codec: \<open>getDouble\<close> and \<open>toFlo2DDouble\<close>\<close>

definition FLO2D_NAN :: double where
  "FLO2D_NAN = Num 0"

definition MDAL_NAN :: double where
  "MDAL_NAN = NaN"

text \<open>
  Modelled from the spec: \<open>MDAL::equals\<close> of mdal\_utils is not part of the sources at hand.
  The specification of the codec gives the test as \<open>|value - 0.0| <= 1e-8\<close>, which is
  taken over the exact difference (subtracting \<open>0.0\<close> from a binary64 number is exact).
\<close>

fun exact_difference :: "double \<Rightarrow> double \<Rightarrow> double" where
  "exact_difference (Num a) (Num b) = Num (a - b)"
| "exact_difference NaN _ = NaN"
| "exact_difference _ NaN = NaN"
| "exact_difference PInf PInf = NaN"
| "exact_difference MInf MInf = NaN"
| "exact_difference PInf _ = PInf"
| "exact_difference _ PInf = MInf"
| "exact_difference MInf _ = MInf"
| "exact_difference _ MInf = PInf"

definition equals :: "double \<Rightarrow> double \<Rightarrow> double \<Rightarrow> bool" where
  "equals val1 val2 eps = dle (fabs (exact_difference val1 val2)) eps"

definition getDouble :: "double \<Rightarrow> double" where
  "getDouble val = (if equals val FLO2D_NAN (Num (1 / 10 ^ 8)) then MDAL_NAN else val)"

definition toFlo2DDouble :: "double \<Rightarrow> double" where
  "toFlo2DDouble val = (if isnan val then FLO2D_NAN else val)"

subsection \<open>Text files\<close>

text \<open>
  Every text file is read line by line, and every line is cut into fields by
  \<open>MDAL::split (MDAL::rtrim line) ' '\<close>. The tokenizer and the number parsers
  \<open>MDAL::toSizeT\<close>, \<open>MDAL::toInt\<close> and \<open>MDAL::toDouble\<close> belong to mdal\_utils, which is
  not among the sources. A field is therefore modelled by what the three parsers read
  from it, a line by the list of its fields, and a file by the list of its lines;
  a file that does not exist is \<open>None\<close>. \<open>size_t\<close> is a 64-bit word.
\<close>

record token =
  toSizeT :: "64 word"
  toInt :: int
  toDouble :: double

type_synonym text_file = "token list list option"

text \<open>
  A field whose text \<open>atoi\<close> reads as the integer \<open>i\<close> and whose decimal number is
  \<open>r\<close>, which \<open>atof\<close> rounds to binary64 (\<open>toSizeT\<close> reads a negative integer as 0).
  It is used to write down concrete files.
\<close>

definition field :: "int \<Rightarrow> real \<Rightarrow> token" where
  "field i r =
     \<lparr>toSizeT = (if i < 0 then 0 else word_of_int i), toInt = i, toDouble = binary64 r\<rparr>"

subsection \<open>Cell centres: \<open>parseCADPTSFile\<close> and \<open>parseFPLAINFile\<close>\<close>

record CellCenter =
  cc_id :: "64 word"
  cc_x :: double
  cc_y :: double
  conn :: "int list"

fun parseCADPTS_lines :: "token list list \<Rightarrow> CellCenter list \<Rightarrow> failure + CellCenter list" where
  "parseCADPTS_lines [] cells = Inr cells"
| "parseCADPTS_lines (lineParts # rest) cells =
     (if length lineParts \<noteq> 3 then Inl (Thrown Err_UnknownFormat)
      else parseCADPTS_lines rest
             (cells @ [\<lparr>cc_id = toSizeT (lineParts ! 1) - 1,
                        cc_x = toDouble (lineParts ! 1),
                        cc_y = toDouble (lineParts ! 2),
                        conn = replicate 4 0\<rparr>]))"

definition parseCADPTSFile :: "text_file \<Rightarrow> CellCenter list \<Rightarrow> failure + CellCenter list" where
  "parseCADPTSFile cadptsFile cells =
     (case cadptsFile of
        None \<Rightarrow> Inl (Thrown Err_FileNotFound)
      | Some ls \<Rightarrow> parseCADPTS_lines ls cells)"

text \<open>
  The four neighbour slots of a cell are written through \<open>cells[cc_i].conn[j]\<close>; an index
  outside the vector is undefined behaviour in the source and \<open>OutOfBounds\<close> here.
  \<open>int\<close> is unbounded in the model.
\<close>

fun parseFPLAIN_lines ::
  "token list list \<Rightarrow> double list \<Rightarrow> CellCenter list \<Rightarrow> failure + (double list \<times> CellCenter list)" where
  "parseFPLAIN_lines [] elevations cells = Inr (elevations, cells)"
| "parseFPLAIN_lines (lineParts # rest) elevations cells =
     (if length lineParts \<noteq> 7 then Inl (Thrown Err_UnknownFormat)
      else
        let cc_i = unat (toSizeT (lineParts ! 0) - 1) in
        if \<not> cc_i < length cells \<or> length (conn (cells ! cc_i)) < 4 then Inl OutOfBounds
        else parseFPLAIN_lines rest (elevations @ [toDouble (lineParts ! 6)])
               (cells[cc_i :=
                  fold (\<lambda>j c. c\<lparr>conn := (conn c)[j := toInt (lineParts ! (j + 1)) - 1]\<rparr>)
                    [0, 1, 2, 3] (cells ! cc_i)]))"

definition parseFPLAINFile ::
  "text_file \<Rightarrow> CellCenter list \<Rightarrow> failure + (double list \<times> CellCenter list)" where
  "parseFPLAINFile fplainFile cells =
     (case fplainFile of
        None \<Rightarrow> Inl (Thrown Err_FileNotFound)
      | Some ls \<Rightarrow> parseFPLAIN_lines ls [] cells)"

subsection \<open>Cell size: \<open>calcCellSize\<close>\<close>

text \<open>
  The inner loop over the four slots \<open>j\<close> returns \<open>Some\<close> result when it leaves the
  function and \<open>None\<close> when it runs to its end. The slot that is read is
  \<open>cells[i].conn[0]\<close> for every \<open>j\<close>, as in the source.
\<close>

fun calcCellSize_slots :: "CellCenter list \<Rightarrow> nat \<Rightarrow> nat list \<Rightarrow> (failure + double) option" where
  "calcCellSize_slots cells i [] = None"
| "calcCellSize_slots cells i (j # js) =
     (if length (conn (cells ! i)) = 0 then Some (Inl OutOfBounds)
      else
        let idx = conn (cells ! i) ! 0 in
        if idx > -1 then
          (if \<not> nat idx < length cells then Some (Inl OutOfBounds)
           else if j = 0 \<or> j = 2 then
             Some (Inr (fabs (dsub (cc_y (cells ! nat idx)) (cc_y (cells ! i)))))
           else
             Some (Inr (fabs (dsub (cc_x (cells ! nat idx)) (cc_x (cells ! i))))))
        else calcCellSize_slots cells i js)"

fun calcCellSize_cells :: "CellCenter list \<Rightarrow> nat list \<Rightarrow> failure + double" where
  "calcCellSize_cells cells [] = Inl (Thrown Err_IncompatibleMesh)"
| "calcCellSize_cells cells (i # is) =
     (case calcCellSize_slots cells i [0, 1, 2, 3] of
        Some r \<Rightarrow> r
      | None \<Rightarrow> calcCellSize_cells cells is)"

definition calcCellSize :: "CellCenter list \<Rightarrow> failure + double" where
  "calcCellSize cells = calcCellSize_cells cells [0..<length cells]"

subsection \<open>Mesh reconstruction: \<open>createVertex\<close>, \<open>VertexCompare\<close>, \<open>createMesh\<close>\<close>

record Vertex =
  vx :: double
  vy :: double

definition createVertex :: "nat \<Rightarrow> double \<Rightarrow> CellCenter \<Rightarrow> Vertex" where
  "createVertex position half_cell_size cell =
     (let n = \<lparr>vx = cc_x cell, vy = cc_y cell\<rparr> in
      if position = 0 then
        n\<lparr>vx := dadd (vx n) half_cell_size, vy := dsub (vy n) half_cell_size\<rparr>
      else if position = 1 then
        n\<lparr>vx := dadd (vx n) half_cell_size, vy := dadd (vy n) half_cell_size\<rparr>
      else if position = 2 then
        n\<lparr>vx := dsub (vx n) half_cell_size, vy := dadd (vy n) half_cell_size\<rparr>
      else if position = 3 then
        n\<lparr>vx := dsub (vx n) half_cell_size, vy := dsub (vy n) half_cell_size\<rparr>
      else n)"

definition VertexCompare :: "Vertex \<Rightarrow> Vertex \<Rightarrow> bool" where
  "VertexCompare lhs rhs =
     (let resX = dadd (dadd (Num 0) (dmul (vx lhs) (Num 1000000))) (dmul (vy lhs) (Num 1000));
          resY = dadd (dadd (Num 0) (dmul (vx rhs) (Num 1000000))) (dmul (vy rhs) (Num 1000))
      in dless resX resY)"

text \<open>
  Two vertices have equal keys under the comparator when neither is less than the other.
  \<open>std::map<Vertex, size_t, VertexCompare>\<close> is modelled by the list of its entries in
  the order of their insertion; \<open>find\<close> yields the entry whose key is equal, in this
  sense, to the one looked up.
\<close>

definition same_key :: "Vertex \<Rightarrow> Vertex \<Rightarrow> bool" where
  "same_key a b = (\<not> VertexCompare a b \<and> \<not> VertexCompare b a)"

definition map_find :: "(Vertex \<times> nat) list \<Rightarrow> Vertex \<Rightarrow> nat option" where
  "map_find unique_vertices n =
     map_option snd (find (\<lambda>(v, i). same_key v n) unique_vertices)"

type_synonym Face = "nat list"

text \<open>
  The local variables \<open>unique_vertices\<close>, \<open>vertices\<close> and \<open>vertex_idx\<close> of
  \<open>createMesh\<close>.
\<close>

record MeshBuild =
  b_unique_vertices :: "(Vertex \<times> nat) list"
  b_vertices :: "Vertex list"
  b_vertex_idx :: nat

text \<open>One round of the loop over the four corner positions of a cell.\<close>

definition createMesh_position ::
  "double \<Rightarrow> CellCenter \<Rightarrow> nat \<Rightarrow> MeshBuild \<times> Face \<Rightarrow> MeshBuild \<times> Face" where
  "createMesh_position half_cell_size cell position st =
     (case st of (b, e) \<Rightarrow>
        let n = createVertex position half_cell_size cell in
        (case map_find (b_unique_vertices b) n of
           None \<Rightarrow>
             (\<lparr>b_unique_vertices = b_unique_vertices b @ [(n, b_vertex_idx b)],
               b_vertices = b_vertices b @ [n],
               b_vertex_idx = b_vertex_idx b + 1\<rparr>,
              e[position := b_vertex_idx b])
         | Some found \<Rightarrow> (b, e[position := found])))"

fun createMesh_cells ::
  "double \<Rightarrow> CellCenter list \<Rightarrow> MeshBuild \<times> Face list \<Rightarrow> MeshBuild \<times> Face list" where
  "createMesh_cells half_cell_size [] st = st"
| "createMesh_cells half_cell_size (cell # cells) (b, faces) =
     (case fold (createMesh_position half_cell_size cell) [0, 1, 2, 3] (b, replicate 4 0) of
        (b', e) \<Rightarrow> createMesh_cells half_cell_size cells (b', faces @ [e]))"

subsection \<open>Meshes and dataset groups\<close>

text \<open>
  The classes \<open>MemoryMesh\<close>, \<open>DatasetGroup\<close> and \<open>MemoryDataset\<close> are declared outside
  the driver. The records keep the members the driver reads and writes; statistics and
  the extent of the mesh are left out.
\<close>

record Dataset =
  time :: double
  dvalues :: "double list"

record DatasetGroup =
  name :: string
  uri :: string
  isOnVertices :: bool
  isScalar :: bool
  datasets :: "Dataset list"

record MemoryMesh =
  vertices :: "Vertex list"
  faces :: "Face list"
  datasetGroups :: "DatasetGroup list"

definition verticesCount :: "MemoryMesh \<Rightarrow> nat" where
  "verticesCount mesh = length (vertices mesh)"

definition facesCount :: "MemoryMesh \<Rightarrow> nat" where
  "facesCount mesh = length (faces mesh)"

definition createMesh :: "CellCenter list \<Rightarrow> double \<Rightarrow> MemoryMesh" where
  "createMesh cells half_cell_size =
     (case createMesh_cells half_cell_size cells
             (\<lparr>b_unique_vertices = [], b_vertices = [], b_vertex_idx = 0\<rparr>, []) of
        (b, fs) \<Rightarrow> \<lparr>vertices = b_vertices b, faces = fs, datasetGroups = []\<rparr>)"

text \<open>
  Modelled from the spec: \<open>Dataset::valuesCount\<close> and the constructor of \<open>MemoryDataset\<close>
  are not among the sources. A dataset of a face-associated group has a dense value
  buffer sized \<open>facesCount\<close> (scalar) or \<open>2 * facesCount\<close> (vector, interleaved x/y);
  a fresh buffer holds the missing value everywhere.
\<close>

definition valuesCount :: "MemoryMesh \<Rightarrow> DatasetGroup \<Rightarrow> nat" where
  "valuesCount mesh grp =
     (if isOnVertices grp then verticesCount mesh else facesCount mesh)"

definition newMemoryDataset :: "MemoryMesh \<Rightarrow> DatasetGroup \<Rightarrow> Dataset" where
  "newMemoryDataset mesh grp =
     \<lparr>time = NaN,
      dvalues = replicate ((if isScalar grp then 1 else 2) * valuesCount mesh grp) NaN\<rparr>"

definition newDatasetGroup :: "string \<Rightarrow> string \<Rightarrow> DatasetGroup" where
  "newDatasetGroup datFileName groupName =
     \<lparr>name = groupName, uri = datFileName, isOnVertices = True, isScalar = True, datasets = []\<rparr>"

definition addDatasetToGroup :: "MemoryMesh \<Rightarrow> DatasetGroup \<Rightarrow> Dataset \<Rightarrow> DatasetGroup" where
  "addDatasetToGroup mesh grp dataset =
     (if valuesCount mesh grp > 0 then grp\<lparr>datasets := datasets grp @ [dataset]\<rparr>
      else grp)"

definition addStaticDataset ::
  "double list \<Rightarrow> string \<Rightarrow> string \<Rightarrow> MemoryMesh \<Rightarrow> failure + MemoryMesh" where
  "addStaticDataset vals groupName datFileName mesh =
     (let grp = (newDatasetGroup datFileName groupName)\<lparr>isOnVertices := False, isScalar := True\<rparr>;
          dataset = newMemoryDataset mesh grp
      in if length vals \<noteq> valuesCount mesh grp then Inl AssertFailed
         else
           let dataset = dataset\<lparr>time := Num 0, dvalues := vals\<rparr>;
               grp = grp\<lparr>datasets := datasets grp @ [dataset]\<rparr>
           in Inr (mesh\<lparr>datasetGroups := datasetGroups mesh @ [grp]\<rparr>))"

subsection \<open>Text readers: \<open>parseTIMDEPFile\<close>, \<open>parseDEPTHFile\<close>, \<open>parseVELFPVELOCFile\<close>\<close>

text \<open>
  The state of the loop of \<open>parseTIMDEPFile\<close>: the three groups, the three datasets of
  the slice being read (null pointers before the first time marker) and the index of
  the next face. The bound \<open>nVertexs\<close> is \<open>mMesh->verticesCount()\<close>, as in the source.
  The time of a marker line is read from its only field.
  Writing \<open>values()[k]\<close> outside the buffer and reading \<open>elevations[k]\<close> outside the
  vector are \<open>OutOfBounds\<close>.
\<close>

record TimdepState =
  face_idx :: nat
  depthDsGroup :: DatasetGroup
  waterLevelDsGroup :: DatasetGroup
  flowDsGroup :: DatasetGroup
  flowDataset :: "Dataset option"
  depthDataset :: "Dataset option"
  waterLevelDataset :: "Dataset option"

definition flushDataset :: "MemoryMesh \<Rightarrow> DatasetGroup \<Rightarrow> Dataset option \<Rightarrow> DatasetGroup" where
  "flushDataset mesh grp dataset =
     (case dataset of None \<Rightarrow> grp | Some d \<Rightarrow> addDatasetToGroup mesh grp d)"

fun parseTIMDEP_lines ::
  "MemoryMesh \<Rightarrow> double list \<Rightarrow> token list list \<Rightarrow> TimdepState \<Rightarrow> failure + TimdepState" where
  "parseTIMDEP_lines mesh elevations [] st = Inr st"
| "parseTIMDEP_lines mesh elevations (lineParts # rest) st =
     (if length lineParts = 1 then
        let t = toDouble (lineParts ! 0);
            dg = flushDataset mesh (depthDsGroup st) (depthDataset st);
            fg = flushDataset mesh (flowDsGroup st) (flowDataset st);
            wg = flushDataset mesh (waterLevelDsGroup st) (waterLevelDataset st)
        in parseTIMDEP_lines mesh elevations rest
             \<lparr>face_idx = 0,
              depthDsGroup = dg,
              waterLevelDsGroup = wg,
              flowDsGroup = fg,
              flowDataset = Some ((newMemoryDataset mesh fg)\<lparr>time := t\<rparr>),
              depthDataset = Some ((newMemoryDataset mesh dg)\<lparr>time := t\<rparr>),
              waterLevelDataset = Some ((newMemoryDataset mesh wg)\<lparr>time := t\<rparr>)\<rparr>
      else if length lineParts = 5 \<or> length lineParts = 6 then
        (case (depthDataset st, flowDataset st, waterLevelDataset st) of
           (Some dd, Some fd, Some wd) \<Rightarrow>
             let i = face_idx st in
             if i = verticesCount mesh then Inl (Thrown Err_IncompatibleMesh)
             else if \<not> 2 * i + 1 < length (dvalues fd) then Inl OutOfBounds
             else if \<not> i < length (dvalues dd) then Inl OutOfBounds
             else
               let depth = getDouble (toDouble (lineParts ! 1)) in
               if \<not> isnan depth \<and> \<not> i < length elevations then Inl OutOfBounds
               else if \<not> i < length (dvalues wd) then Inl OutOfBounds
               else parseTIMDEP_lines mesh elevations rest
                      (st\<lparr>flowDataset :=
                            Some (fd\<lparr>dvalues :=
                              (dvalues fd)[2 * i := getDouble (toDouble (lineParts ! 3)),
                                           2 * i + 1 := getDouble (toDouble (lineParts ! 4))]\<rparr>),
                          depthDataset := Some (dd\<lparr>dvalues := (dvalues dd)[i := depth]\<rparr>),
                          waterLevelDataset :=
                            Some (wd\<lparr>dvalues :=
                              (dvalues wd)[i := (if \<not> isnan depth then dadd depth (elevations ! i)
                                                 else depth)]\<rparr>),
                          face_idx := i + 1\<rparr>)
         | _ \<Rightarrow> Inl (Thrown Err_UnknownFormat))
      else Inl (Thrown Err_UnknownFormat))"

definition parseTIMDEPFile ::
  "string \<Rightarrow> text_file \<Rightarrow> double list \<Rightarrow> MemoryMesh \<Rightarrow> failure + MemoryMesh" where
  "parseTIMDEPFile datFileName inFile elevations mesh =
     (case inFile of
        None \<Rightarrow> Inr mesh
      | Some ls \<Rightarrow>
          (case parseTIMDEP_lines mesh elevations ls
                  \<lparr>face_idx = 0,
                   depthDsGroup =
                     (newDatasetGroup datFileName ''Depth'')
                       \<lparr>isOnVertices := False, isScalar := True\<rparr>,
                   waterLevelDsGroup =
                     (newDatasetGroup datFileName ''Water Level'')
                       \<lparr>isOnVertices := False, isScalar := True\<rparr>,
                   flowDsGroup =
                     (newDatasetGroup datFileName ''Velocity'')
                       \<lparr>isOnVertices := False, isScalar := False\<rparr>,
                   flowDataset = None,
                   depthDataset = None,
                   waterLevelDataset = None\<rparr> of
             Inl e \<Rightarrow> Inl e
           | Inr st \<Rightarrow>
               Inr (mesh\<lparr>datasetGroups := datasetGroups mesh @
                      [flushDataset mesh (depthDsGroup st) (depthDataset st),
                       flushDataset mesh (flowDsGroup st) (flowDataset st),
                       flushDataset mesh (waterLevelDsGroup st) (waterLevelDataset st)]\<rparr>)))"

text \<open>
  \<open>DEPTH.OUT\<close>: the state is the line counter and the two buffers, which start as
  \<open>nFaces\<close> zeros (\<open>std::vector<double> maxDepth (nFaces)\<close>).
\<close>

fun parseDEPTH_lines ::
  "nat \<Rightarrow> double list \<Rightarrow> token list list \<Rightarrow> nat \<times> double list \<times> double list \<Rightarrow>
   failure + (double list \<times> double list)" where
  "parseDEPTH_lines nFaces elevations [] (vertex_idx, maxDepth, maxWaterLevel) =
     Inr (maxDepth, maxWaterLevel)"
| "parseDEPTH_lines nFaces elevations (lineParts # rest) (vertex_idx, maxDepth, maxWaterLevel) =
     (if vertex_idx = nFaces then Inl (Thrown Err_IncompatibleMesh)
      else if length lineParts \<noteq> 4 then Inl (Thrown Err_UnknownFormat)
      else
        let val = getDouble (toDouble (lineParts ! 3)) in
        if \<not> vertex_idx < length maxDepth then Inl OutOfBounds
        else if \<not> isnan val \<and> \<not> vertex_idx < length elevations then Inl OutOfBounds
        else parseDEPTH_lines nFaces elevations rest
               (vertex_idx + 1,
                maxDepth[vertex_idx := val],
                maxWaterLevel[vertex_idx :=
                  (if \<not> isnan val then dadd val (elevations ! vertex_idx) else val)]))"

definition parseDEPTHFile ::
  "string \<Rightarrow> text_file \<Rightarrow> double list \<Rightarrow> MemoryMesh \<Rightarrow> failure + MemoryMesh" where
  "parseDEPTHFile datFileName depthFile elevations mesh =
     (case depthFile of
        None \<Rightarrow> Inr mesh
      | Some ls \<Rightarrow>
          let nFaces = facesCount mesh in
          (case parseDEPTH_lines nFaces elevations ls
                  (0, replicate nFaces (Num 0), replicate nFaces (Num 0)) of
             Inl e \<Rightarrow> Inl e
           | Inr (maxDepth, maxWaterLevel) \<Rightarrow>
               (case addStaticDataset maxDepth ''Depth/Maximums'' datFileName mesh of
                  Inl e \<Rightarrow> Inl e
                | Inr mesh1 \<Rightarrow>
                    addStaticDataset maxWaterLevel ''Water Level/Maximums'' datFileName mesh1)))"

text \<open>
  \<open>VELFP.OUT\<close> seeds the buffer \<open>maxVel\<close>; \<open>VELOC.OUT\<close> overwrites a face where its own
  value is not missing. Either file being absent makes the function return before the
  group is added.
\<close>

fun parseVELFP_lines ::
  "nat \<Rightarrow> token list list \<Rightarrow> nat \<times> double list \<Rightarrow> failure + double list" where
  "parseVELFP_lines nFaces [] (vertex_idx, maxVel) = Inr maxVel"
| "parseVELFP_lines nFaces (lineParts # rest) (vertex_idx, maxVel) =
     (if vertex_idx = nFaces then Inl (Thrown Err_IncompatibleMesh)
      else if length lineParts \<noteq> 4 then Inl (Thrown Err_UnknownFormat)
      else
        let val = getDouble (toDouble (lineParts ! 3)) in
        if \<not> vertex_idx < length maxVel then Inl OutOfBounds
        else parseVELFP_lines nFaces rest (vertex_idx + 1, maxVel[vertex_idx := val]))"

fun parseVELOC_lines ::
  "nat \<Rightarrow> token list list \<Rightarrow> nat \<times> double list \<Rightarrow> failure + double list" where
  "parseVELOC_lines nFaces [] (vertex_idx, maxVel) = Inr maxVel"
| "parseVELOC_lines nFaces (lineParts # rest) (vertex_idx, maxVel) =
     (if vertex_idx = nFaces then Inl (Thrown Err_IncompatibleMesh)
      else if length lineParts \<noteq> 4 then Inl (Thrown Err_UnknownFormat)
      else
        let val = getDouble (toDouble (lineParts ! 3)) in
        if \<not> isnan val then
          (if \<not> vertex_idx < length maxVel then Inl OutOfBounds
           else parseVELOC_lines nFaces rest (vertex_idx + 1, maxVel[vertex_idx := val]))
        else parseVELOC_lines nFaces rest (vertex_idx + 1, maxVel))"

definition parseVELFPVELOCFile ::
  "string \<Rightarrow> text_file \<Rightarrow> text_file \<Rightarrow> MemoryMesh \<Rightarrow> failure + MemoryMesh" where
  "parseVELFPVELOCFile datFileName velfpFile velocFile mesh =
     (let nFaces = facesCount mesh in
      case velfpFile of
        None \<Rightarrow> Inr mesh
      | Some velfp \<Rightarrow>
          (case parseVELFP_lines nFaces velfp (0, replicate nFaces (Num 0)) of
             Inl e \<Rightarrow> Inl e
           | Inr maxVel1 \<Rightarrow>
               (case velocFile of
                  None \<Rightarrow> Inr mesh
                | Some veloc \<Rightarrow>
                    (case parseVELOC_lines nFaces veloc (0, maxVel1) of
                       Inl e \<Rightarrow> Inl e
                     | Inr maxVel \<Rightarrow>
                         addStaticDataset maxVel ''Velocity/Maximums'' datFileName mesh))))"

definition parseOUTDatasets ::
  "string \<Rightarrow> text_file \<Rightarrow> text_file \<Rightarrow> text_file \<Rightarrow> text_file \<Rightarrow> double list \<Rightarrow> MemoryMesh \<Rightarrow>
   failure + MemoryMesh" where
  "parseOUTDatasets datFileName timdepFile depthFile velfpFile velocFile elevations mesh =
     (case parseTIMDEPFile datFileName timdepFile elevations mesh of
        Inl e \<Rightarrow> Inl e
      | Inr mesh1 \<Rightarrow>
          (case parseDEPTHFile datFileName depthFile elevations mesh1 of
             Inl e \<Rightarrow> Inl e
           | Inr mesh2 \<Rightarrow> parseVELFPVELOCFile datFileName velfpFile velocFile mesh2))"

subsection \<open>The hierarchical store\<close>

text \<open>
  Modelled from the spec: the classes \<open>HdfFile\<close>, \<open>HdfGroup\<close>, \<open>HdfAttribute\<close> and
  \<open>HdfDataset\<close> of mdal\_hdf5 are not among the sources. A store has a version marker, a
  format-type marker and a results group (\<open>TIMDEP NETCDF OUTPUT RESULTS\<close>) with
  attributes and named sub-groups; a sub-group has attributes and named arrays
  (\<open>Times\<close>, \<open>Values\<close>). A store file that does not exist is \<open>None\<close>. A
  sub-group that is listed always opens. An array holds as many elements as the
  extent it was created with, taken from the front of the buffer that is written.
  The arrays \<open>Mins\<close> and \<open>Maxs\<close> hold statistics and are left out.
\<close>

datatype HdfAttribute = AttrString string | AttrInt int

fun readString :: "HdfAttribute \<Rightarrow> string" where
  "readString (AttrString str) = str"
| "readString (AttrInt i) = []"

record HdfGroup =
  attributes :: "(string \<times> HdfAttribute) list"
  arrays :: "(string \<times> double list) list"

record ResultsGroup =
  rg_attributes :: "(string \<times> HdfAttribute) list"
  subgroups :: "(string \<times> HdfGroup) list"

record HdfFile =
  fileValid :: bool
  fileVersion :: "double option"
  fileType :: "string option"
  resultsGroup :: "ResultsGroup option"

definition writeArray :: "nat list \<Rightarrow> double list \<Rightarrow> double list" where
  "writeArray dims buffer = take (prod_list dims) buffer"

definition pathExists :: "HdfFile \<Rightarrow> string \<Rightarrow> bool" where
  "pathExists file path =
     (case resultsGroup file of
        None \<Rightarrow> False
      | Some rg \<Rightarrow>
          path \<in> set (map (\<lambda>(n, g). ''/TIMDEP NETCDF OUTPUT RESULTS/'' @ n) (subgroups rg)))"

definition createSubGroup :: "HdfFile \<Rightarrow> string \<Rightarrow> HdfGroup \<Rightarrow> HdfFile" where
  "createSubGroup file dsGroupName g =
     (case resultsGroup file of
        None \<Rightarrow> file
      | Some rg \<Rightarrow>
          file\<lparr>resultsGroup := Some (rg\<lparr>subgroups := subgroups rg @ [(dsGroupName, g)]\<rparr>)\<rparr>)"

text \<open>
  Modelled from the spec: \<open>MDAL::contains\<close> with \<open>ContainsBehaviour::CaseInsensitive\<close>
  (mdal\_utils) decides whether the type attribute of a sub-group classifies it as a vector
  group: the lower-cased attribute has the lower-cased word as a substring.
\<close>

definition toLower :: "char \<Rightarrow> char" where
  "toLower c =
     (case map_of (zip ''ABCDEFGHIJKLMNOPQRSTUVWXYZ'' ''abcdefghijklmnopqrstuvwxyz'') c of
        None \<Rightarrow> c
      | Some l \<Rightarrow> l)"

fun startsWith :: "string \<Rightarrow> string \<Rightarrow> bool" where
  "startsWith str [] = True"
| "startsWith [] (c # cs) = False"
| "startsWith (d # ds) (c # cs) = (d = c \<and> startsWith ds cs)"

fun containsSub :: "string \<Rightarrow> string \<Rightarrow> bool" where
  "containsSub [] sub = startsWith [] sub"
| "containsSub (c # cs) sub = (startsWith (c # cs) sub \<or> containsSub cs sub)"

definition contains_CaseInsensitive :: "string \<Rightarrow> string \<Rightarrow> bool" where
  "contains_CaseInsensitive str sub = containsSub (map toLower str) (map toLower sub)"

text \<open>
  Modelled from the spec: \<open>MDAL::dirName\<close> and \<open>MDAL::pathJoin\<close> (mdal\_utils) place a
  file alongside the main file.
\<close>

definition dirName :: "string \<Rightarrow> string" where
  "dirName filename =
     (if CHR ''/'' \<in> set filename
      then rev (tl (dropWhile (\<lambda>c. c \<noteq> CHR ''/'') (rev filename)))
      else filename)"

definition pathJoin :: "string \<Rightarrow> string \<Rightarrow> string" where
  "pathJoin path1 path2 = path1 @ ''/'' @ path2"

definition fileNameFromDir :: "string \<Rightarrow> string \<Rightarrow> string" where
  "fileNameFromDir mainFileName nm = pathJoin (dirName mainFileName) nm"

subsection \<open>Binary reader: \<open>parseHDF5Datasets\<close>\<close>

text \<open>The dataset of one time step \<open>ts\<close>, filled face by face.\<close>

definition hdf5_output ::
  "MemoryMesh \<Rightarrow> DatasetGroup \<Rightarrow> double list \<Rightarrow> double list \<Rightarrow> nat \<Rightarrow> Dataset" where
  "hdf5_output mesh ds times' values ts =
     (let nFaces = facesCount mesh;
          output = (newMemoryDataset mesh ds)\<lparr>time := times' ! ts\<rparr>
      in if \<not> isScalar ds then
           output\<lparr>dvalues :=
             fold (\<lambda>i out.
                     let idx = 2 * (ts * nFaces + i);
                         x = getDouble (values ! idx);
                         y = getDouble (values ! (idx + 1))
                     in out[2 * i := x, 2 * i + 1 := y])
               [0..<nFaces] (dvalues output)\<rparr>
         else
           output\<lparr>dvalues :=
             fold (\<lambda>i out.
                     let idx = ts * nFaces + i;
                         val = getDouble (values ! idx)
                     in out[i := val])
               [0..<nFaces] (dvalues output)\<rparr>)"

text \<open>
  One round of the loop over the sub-groups: \<open>None\<close> where the source returns
  \<open>true\<close> (a missing type attribute, \<open>Times\<close> array or \<open>Values\<close> array, or a wrong
  number of values), and the finished group otherwise.
\<close>

definition parseHDF5_group ::
  "MemoryMesh \<Rightarrow> string \<Rightarrow> string \<Rightarrow> HdfGroup \<Rightarrow> DatasetGroup option" where
  "parseHDF5_group mesh timedepFileName grpName grp =
     (case map_of (attributes grp) ''Grouptype'' of
        None \<Rightarrow> None
      | Some groupType \<Rightarrow>
     (case map_of (arrays grp) ''Times'' of
        None \<Rightarrow> None
      | Some times' \<Rightarrow>
     (case map_of (arrays grp) ''Values'' of
        None \<Rightarrow> None
      | Some values \<Rightarrow>
          let timesteps = length times';
              isVector = contains_CaseInsensitive (readString groupType) ''vector'';
              expectedSize = (if isVector then 2 else 1) * (facesCount mesh * timesteps)
          in if length values \<noteq> expectedSize then None
             else
               let ds = (newDatasetGroup timedepFileName grpName)
                          \<lparr>isOnVertices := False, isScalar := \<not> isVector\<rparr>
               in Some (fold (\<lambda>ts d. addDatasetToGroup mesh d (hdf5_output mesh d times' values ts))
                          [0..<timesteps] ds))))"

text \<open>
  The loop over the sub-groups. The result is the pair of the error flag (\<open>True\<close> on
  error) and the mesh as the call leaves it: a finished group is pushed onto
  \<open>mesh->datasetGroups\<close> at the end of its round.
\<close>

fun parseHDF5_groups ::
  "string \<Rightarrow> (string \<times> HdfGroup) list \<Rightarrow> MemoryMesh \<Rightarrow> bool \<times> MemoryMesh" where
  "parseHDF5_groups timedepFileName [] mesh = (False, mesh)"
| "parseHDF5_groups timedepFileName ((grpName, grp) # rest) mesh =
     (case parseHDF5_group mesh timedepFileName grpName grp of
        None \<Rightarrow> (True, mesh)
      | Some ds \<Rightarrow>
          parseHDF5_groups timedepFileName rest
            (mesh\<lparr>datasetGroups := datasetGroups mesh @ [ds]\<rparr>))"

definition parseHDF5Datasets ::
  "MemoryMesh \<Rightarrow> string \<Rightarrow> HdfFile option \<Rightarrow> bool \<times> MemoryMesh" where
  "parseHDF5Datasets mesh timedepFileName store =
     (case store of
        None \<Rightarrow> (True, mesh)
      | Some file \<Rightarrow>
          if \<not> fileValid file then (True, mesh)
          else
            (case resultsGroup file of
               None \<Rightarrow> (True, mesh)
             | Some timedataGroup \<Rightarrow>
                 parseHDF5_groups timedepFileName (subgroups timedataGroup) mesh))"

subsection \<open>Loading a mesh: \<open>load\<close>\<close>

text \<open>
  The files beside the main file. A status thrown inside \<open>load\<close> is caught there: the
  call then reports the status and returns no mesh, which is the result
  \<open>Inl (Thrown status)\<close> here.
\<close>

record Flo2dFiles =
  CADPTS_DAT :: text_file
  FPLAIN_DAT :: text_file
  TIMDEP_OUT :: text_file
  DEPTH_OUT :: text_file
  VELFP_OUT :: text_file
  VELOC_OUT :: text_file
  TIMDEP_HDF5 :: "HdfFile option"

definition load :: "string \<Rightarrow> Flo2dFiles \<Rightarrow> failure + MemoryMesh" where
  "load resultsFile files =
     (case parseCADPTSFile (CADPTS_DAT files) [] of
        Inl e \<Rightarrow> Inl e
      | Inr cells0 \<Rightarrow>
     (case parseFPLAINFile (FPLAIN_DAT files) cells0 of
        Inl e \<Rightarrow> Inl e
      | Inr (elevations, cells) \<Rightarrow>
     (case calcCellSize cells of
        Inl e \<Rightarrow> Inl e
      | Inr cell_size \<Rightarrow>
     (case addStaticDataset elevations ''Bed Elevation'' resultsFile
             (createMesh cells (ddiv2 cell_size)) of
        Inl e \<Rightarrow> Inl e
      | Inr mesh \<Rightarrow>
     (case parseHDF5Datasets mesh (fileNameFromDir resultsFile ''TIMDEP.HDF5'')
             (TIMDEP_HDF5 files) of
        (True, mesh1) \<Rightarrow>
          parseOUTDatasets resultsFile (TIMDEP_OUT files) (DEPTH_OUT files)
            (VELFP_OUT files) (VELOC_OUT files) elevations mesh1
      | (False, mesh1) \<Rightarrow> Inr mesh1)))))"

subsection \<open>Binary writer: \<open>appendGroup\<close>, \<open>saveNewHDF5File\<close>, \<open>addToHDF5File\<close>, \<open>persist\<close>\<close>

text \<open>\<open>std::to_string\<close> of an \<open>int\<close>.\<close>

fun string_of_nat :: "nat \<Rightarrow> string" where
  "string_of_nat n =
     (if n < 10 then [''0123456789'' ! n]
      else string_of_nat (n div 10) @ [''0123456789'' ! (n mod 10)])"

definition to_string :: "int \<Rightarrow> string" where
  "to_string i = (if i < 0 then CHR ''-'' # string_of_nat (nat (- i)) else string_of_nat (nat i))"

text \<open>
  The loop that derives the name of the sub-group. Its state is \<open>dsGroupName\<close>; the
  counter \<open>i\<close> is never assigned in the body of the loop. A run that does not leave the
  loop is the value \<open>None\<close>.
\<close>

partial_function (option) uniqueGroupName :: "HdfFile \<Rightarrow> string \<Rightarrow> int \<Rightarrow> string \<Rightarrow> string option" where
  "uniqueGroupName file nm i dsGroupName =
     (if pathExists file (''/TIMDEP NETCDF OUTPUT RESULTS/'' @ dsGroupName)
      then uniqueGroupName file nm i (nm @ ''_'' @ to_string i)
      else Some dsGroupName)"

declare uniqueGroupName.simps [code]

text \<open>
  Modelled from the spec: \<open>Dataset::scalarData\<close> and \<open>Dataset::vectorData\<close> copy the
  values of the dataset (interleaved x/y for a vector group) into the row buffer, which
  starts as \<open>valCount\<close> zeros.
\<close>

definition rowData :: "nat \<Rightarrow> Dataset \<Rightarrow> double list" where
  "rowData valCount dataset =
     take valCount (dvalues dataset) @ replicate (valCount - length (dvalues dataset)) (Num 0)"

text \<open>
  \<open>static_cast<float>\<close> rounds a \<open>double\<close> to single precision. That rounding is
  left open: the cast is the parameter \<open>toFloat\<close> of the writer; the parameter
  \<open>nFaces\<close> is \<open>dsGroup->mesh()->facesCount()\<close>. The vector \<open>times\<close>
  is created with \<open>timesCount\<close> zeros and the time of each dataset is pushed behind them.
\<close>

definition appendGroup ::
  "(double \<Rightarrow> double) \<Rightarrow> HdfFile \<Rightarrow> DatasetGroup \<Rightarrow> nat \<Rightarrow> (bool \<times> HdfFile) option" where
  "appendGroup toFloat file dsGroup nFaces =
     (if isOnVertices dsGroup then Some (True, file)
      else
        let timesCount = length (datasets dsGroup);
            valCount = (if isScalar dsGroup then nFaces else nFaces * 2);
            dscValues = (if isScalar dsGroup then [timesCount, nFaces]
                         else [timesCount, nFaces, 2]);
            timesCountVec = [timesCount];
            times' = replicate timesCount (Num 0) @ map time (datasets dsGroup);
            values = concat (map (\<lambda>dataset.
                                map (\<lambda>v. toFloat (toFlo2DDouble v)) (rowData valCount dataset))
                              (datasets dsGroup))
        in case uniqueGroupName file (name dsGroup) 0 (name dsGroup) of
             None \<Rightarrow> None
           | Some dsGroupName \<Rightarrow>
               Some (False,
                 createSubGroup file dsGroupName
                   \<lparr>attributes =
                      [(''Data Type'', AttrInt 0),
                       (''DatasetCompression'', AttrInt (- 1)),
                       (''Grouptype'',
                          AttrString (if isScalar dsGroup then ''DATASET SCALAR''
                                      else ''DATASET VECTOR'')),
                       (''TimeUnits'', AttrString ''Hours'')],
                    arrays =
                      [(''Times'', writeArray timesCountVec times'),
                       (''Values'', writeArray dscValues values)]\<rparr>))"

definition addToHDF5File ::
  "(double \<Rightarrow> double) \<Rightarrow> HdfFile \<Rightarrow> DatasetGroup \<Rightarrow> nat \<Rightarrow> (bool \<times> HdfFile) option" where
  "addToHDF5File toFloat file grp nFaces =
     (if \<not> fileValid file then Some (True, file)
      else
        (case resultsGroup file of
           None \<Rightarrow> Some (True, file)
         | Some timedataGroup \<Rightarrow> appendGroup toFloat file grp nFaces))"

definition saveNewHDF5File ::
  "(double \<Rightarrow> double) \<Rightarrow> DatasetGroup \<Rightarrow> nat \<Rightarrow> (bool \<times> HdfFile) option" where
  "saveNewHDF5File toFloat dsGroup nFaces =
     appendGroup toFloat
       \<lparr>fileValid = True,
        fileVersion = Some (Num 1),
        fileType = Some ''Xmdf'',
        resultsGroup =
          Some \<lparr>rg_attributes = [(''Grouptype'', AttrString ''Generic'')], subgroups = []\<rparr>\<rparr>
       dsGroup nFaces"

text \<open>
  \<open>persist\<close> takes the store found at the locator of the group (\<open>None\<close> when there
  is no such file) and yields the error flag and the store after the call.
\<close>

definition persist ::
  "(double \<Rightarrow> double) \<Rightarrow> HdfFile option \<Rightarrow> DatasetGroup \<Rightarrow> nat \<Rightarrow> (bool \<times> HdfFile option) option" where
  "persist toFloat store grp nFaces =
     (case store of
        Some file \<Rightarrow> map_option (\<lambda>(err, f). (err, Some f)) (addToHDF5File toFloat file grp nFaces)
      | None \<Rightarrow>
          map_option (\<lambda>(err, f). (err, Some f)) (saveNewHDF5File toFloat grp nFaces))"

subsection \<open>Notions used in the statements and proofs\<close>

text \<open>
  The corner points of a cell in the order of the loop over \<open>position\<close>, and the
  vertices a sequence of corner points leaves behind when each point is kept at its
  first occurrence only (a point is dropped when an earlier one has an equal key).
  \<open>vertex_key\<close> is the key that \<open>VertexCompare\<close> computes for either argument; a
  vertex is called finite here when its key is not \<open>NaN\<close>. \<open>good_face\<close> says that a
  face has four entries, each the index of a vertex whose key equals that of the
  corner at its position. \<open>build_inv\<close> is the invariant of the loop of
  \<open>createMesh\<close>. \<open>appends_with P mesh m'\<close> says that \<open>m'\<close> is \<open>mesh\<close> with further
  dataset groups pushed behind the present ones, all satisfying \<open>P\<close>.
\<close>

definition cell_corners :: "double \<Rightarrow> CellCenter \<Rightarrow> Vertex list" where
  "cell_corners half_cell_size cell = map (\<lambda>position. createVertex position half_cell_size cell) [0, 1, 2, 3]"

fun first_occurrences :: "Vertex list \<Rightarrow> Vertex list \<Rightarrow> Vertex list" where
  "first_occurrences seen [] = seen"
| "first_occurrences seen (n # ns) =
     (if list_ex (\<lambda>v. same_key v n) seen then first_occurrences seen ns
      else first_occurrences (seen @ [n]) ns)"

definition vertex_key :: "Vertex \<Rightarrow> double" where
  "vertex_key v = dadd (dadd (Num 0) (dmul (vx v) (Num 1000000))) (dmul (vy v) (Num 1000))"

definition finite_vertex :: "Vertex \<Rightarrow> bool" where
  "finite_vertex v = (\<not> isnan (vertex_key v))"

definition good_face :: "Vertex list \<Rightarrow> double \<Rightarrow> CellCenter \<Rightarrow> Face \<Rightarrow> bool" where
  "good_face vs half_cell_size cell e =
     (length e = 4 \<and>
      (\<forall>p<4. e ! p < length vs \<and> same_key (vs ! (e ! p)) (createVertex p half_cell_size cell)))"

definition build_inv :: "MeshBuild \<Rightarrow> bool" where
  "build_inv b =
     (b_vertex_idx b = length (b_vertices b) \<and>
      b_unique_vertices b = zip (b_vertices b) [0..<length (b_vertices b)] \<and>
      (\<forall>v\<in>set (b_vertices b). finite_vertex v) \<and>
      (\<forall>i<length (b_vertices b). \<forall>j<length (b_vertices b).
         same_key (b_vertices b ! i) (b_vertices b ! j) \<longrightarrow> i = j))"

definition appends_with :: "(DatasetGroup \<Rightarrow> bool) \<Rightarrow> MemoryMesh \<Rightarrow> MemoryMesh \<Rightarrow> bool" where
  "appends_with P mesh m' =
     (\<exists>new. m' = mesh\<lparr>datasetGroups := datasetGroups mesh @ new\<rparr> \<and> (\<forall>t\<in>set new. P t))"

text \<open>
  Example inputs: two cells, one above the other, as cell centres with their
  neighbour slots and as files
  (\<open>CADPTS.DAT = 1 0 0 / 2 0 10\<close>,
  \<open>FPLAIN.DAT = 1 2 0 0 0 0.05 100 / 2 0 0 1 0 0.05 101\<close>), and a store whose results
  group has a well-formed scalar sub-group \<open>Depth\<close> followed by a sub-group
  \<open>Velocity\<close> without type attribute.
\<close>

definition example_cells :: "CellCenter list" where
  "example_cells =
     [\<lparr>cc_id = 0, cc_x = Num 0, cc_y = Num 0, conn = [1, - 1, - 1, - 1]\<rparr>,
      \<lparr>cc_id = 1, cc_x = Num 0, cc_y = Num 10, conn = [- 1, - 1, 0, - 1]\<rparr>]"

definition example_files :: Flo2dFiles where
  "example_files =
     \<lparr>CADPTS_DAT = Some [[field 1 1, field 0 0, field 0 0], [field 2 2, field 0 0, field 10 10]],
      FPLAIN_DAT =
        Some [[field 1 1, field 2 2, field 0 0, field 0 0, field 0 0, field 0 0.05, field 100 100],
              [field 2 2, field 0 0, field 0 0, field 1 1, field 0 0, field 0 0.05, field 101 101]],
      TIMDEP_OUT = None, DEPTH_OUT = None, VELFP_OUT = None, VELOC_OUT = None,
      TIMDEP_HDF5 = None\<rparr>"

definition example_store :: HdfFile where
  "example_store =
     \<lparr>fileValid = True, fileVersion = Some (Num 1), fileType = Some ''Xmdf'',
      resultsGroup =
        Some \<lparr>rg_attributes = [(''Grouptype'', AttrString ''Generic'')],
              subgroups =
                [(''Depth'',
                  \<lparr>attributes = [(''Grouptype'', AttrString ''DATASET SCALAR'')],
                   arrays = [(''Times'', [Num 1]), (''Values'', [Num 1.5, Num 2.5])]\<rparr>),
                 (''Velocity'',
                  \<lparr>attributes = [],
                   arrays = [(''Times'', [Num 1]), (''Values'', [Num 1, Num 1, Num 1, Num 1])]\<rparr>)]\<rparr>\<rparr>"

section \<open>Properties\<close>

subsection \<open>Rounding\<close>

text \<open>
  A number whose double is an integer and whose magnitude is below \<open>2 ^ 52\<close> is a
  binary64 number: rounding leaves it as it is.
\<close>

lemma round_half_even_of_int [simp]: "round_half_even (of_int i) = i"
  by (simp add: round_half_even_def)

lemma ilog2_half: "ilog2 (1 / 2) = - 1"
proof -
  have "\<lceil>1 / (1 / 2 :: real)\<rceil> - 1 = (1 :: int)"
    by simp
  moreover have "bitlen 1 = 1"
    by (simp add: bitlen_alt_def)
  ultimately show ?thesis
    unfolding ilog2_def by simp
qed

lemma ilog2_bounds_half:
  assumes "2 * a \<in> \<int>" "0 < a" "a < 2 ^ 52"
  shows "- 1 \<le> ilog2 a \<and> ilog2 a \<le> 51"
proof (cases "1 \<le> a")
  case True
  then have pos: "0 < \<lfloor>a\<rfloor>" by linarith
  from assms(3) have "\<lfloor>a\<rfloor> < 2 ^ 52"
    by (simp add: floor_less_iff)
  then have "bitlen \<lfloor>a\<rfloor> \<le> 52"
    by (simp add: bitlen_le_iff_power)
  moreover from pos have "1 \<le> bitlen \<lfloor>a\<rfloor>"
    using bitlen_eq_zero_iff [of "\<lfloor>a\<rfloor>"] bitlen_nonneg [of "\<lfloor>a\<rfloor>"] by linarith
  ultimately show ?thesis
    using True by (simp add: ilog2_def)
next
  case False
  from assms(1) obtain i :: int where i: "2 * a = of_int i"
    by (auto elim: Ints_cases)
  with assms(2) False have "0 < i" "i < 2"
    by linarith+
  then have "i = 1" by simp
  with i have "a = 1 / 2" by simp
  then show ?thesis
    by (simp only: ilog2_half) simp
qed

lemma binary64_exact:
  assumes "2 * r \<in> \<int>" and "\<bar>r\<bar> < 2 ^ 52"
  shows "binary64 r = Num r"
proof (cases "r = 0")
  case True
  then show ?thesis by (simp add: binary64_def)
next
  case False
  define a where "a = \<bar>r\<bar>"
  from assms(1) have "2 * a \<in> \<int>"
    unfolding a_def by (cases "0 \<le> r") (simp_all add: abs_if minus_in_Ints_iff)
  then obtain i :: int where i: "2 * a = of_int i"
    by (auto elim: Ints_cases)
  from False have apos: "0 < a" by (simp add: a_def)
  from assms(2) have alt: "a < 2 ^ 52" by (simp add: a_def)
  from ilog2_bounds_half [OF \<open>2 * a \<in> \<int>\<close> apos alt]
  have L: "- 1 \<le> ilog2 a" "ilog2 a \<le> 51" by simp_all
  define k where "k = nat (51 - ilog2 a)"
  define e where "e = max (ilog2 a - 52) (- 1074)"
  define d where "d = pow2 e"
  have "e < 0" and "nat (- e) = Suc k"
    using L by (simp_all add: e_def k_def)
  then have d: "d = 1 / (2 * 2 ^ k)"
    by (simp add: d_def pow2_def)
  have "a / d = a * 2 * 2 ^ k"
    by (simp add: d)
  also have "\<dots> = of_int (i * 2 ^ k)"
    using i by (simp add: mult.commute)
  finally have q: "a / d = of_int (i * 2 ^ k)" .
  have "of_int (i * 2 ^ k) * d = a * 2 * 2 ^ k * d"
    using i by (simp add: mult.commute)
  also have "\<dots> = a"
    by (simp add: d)
  finally have m: "of_int (round_half_even (a / d)) * d = a"
    unfolding q round_half_even_of_int .
  have small: "\<not> (2 :: real) ^ 1024 \<le> a"
  proof -
    have "(2 :: real) ^ 52 \<le> 2 ^ 1024"
      by (rule power_increasing) simp_all
    with alt show ?thesis by linarith
  qed
  have "binary64 r = Num (if 0 < r then a else - a)"
    using False small
    by (simp add: binary64_def Let_def a_def [symmetric] e_def [symmetric] d_def [symmetric] m)
  then show ?thesis
    by (simp add: a_def)
qed


subsection \<open>Sentinel codec\<close>





subsection \<open>Evaluation of concrete inputs\<close>

lemmas geometry_defs =
  binary64_exact field_def parseCADPTSFile_def parseFPLAINFile_def calcCellSize_def createMesh_def
  createMesh_position_def createVertex_def map_find_def same_key_def VertexCompare_def

lemmas dataset_defs =
  addStaticDataset_def newDatasetGroup_def newMemoryDataset_def valuesCount_def
  facesCount_def verticesCount_def flushDataset_def addDatasetToGroup_def
  getDouble_def equals_def FLO2D_NAN_def MDAL_NAN_def toFlo2DDouble_def

lemmas reader_defs =
  parseHDF5Datasets_def parseHDF5_group_def hdf5_output_def contains_CaseInsensitive_def
  toLower_def parseOUTDatasets_def parseTIMDEPFile_def parseDEPTHFile_def
  parseVELFPVELOCFile_def fileNameFromDir_def dirName_def pathJoin_def

lemmas writer_defs =
  persist_def saveNewHDF5File_def addToHDF5File_def appendGroup_def pathExists_def
  createSubGroup_def writeArray_def rowData_def to_string_def

subsection \<open>Cell centres and cell size\<close>

text \<open>
  Claim C8, evaluated on a \<open>CADPTS.DAT\<close> with the single record \<open>1 5 7\<close>. The claim
  gives the cell the id \<open>1 - 1 = 0\<close>, from the first field. The parser reads the id from
  \<open>lineParts[1]\<close>, the second field, and stores \<open>5 - 1 = 4\<close>; x and y are the second
  and third field.
\<close>

theorem parseCADPTSFile_id_from_second_field:
  "parseCADPTSFile (Some [[field 1 1, field 5 5, field 7 7]]) [] =
     Inr [\<lparr>cc_id = 4, cc_x = Num 5, cc_y = Num 7, conn = [0, 0, 0, 0]\<rparr>]"
  by (simp add: geometry_defs numeral_eq_Suc)

text \<open>
  Claim C2, evaluated on two cells that lie side by side: cell 0 at \<open>(0, 0)\<close> has cell 1
  as its east neighbour, cell 1 at \<open>(10, 0)\<close> has cell 0 as its west neighbour, and all
  other slots are boundary. The claim gives the horizontal distance 10. The scan reads
  \<open>conn[0]\<close>, the north slot, in every round of the inner loop, finds no neighbour in any
  cell and throws \<open>Err_IncompatibleMesh\<close>; so does the load of the files
  \<open>CADPTS.DAT = 1 0 0 / 2 10 0\<close> and
  \<open>FPLAIN.DAT = 1 0 2 0 0 0.05 100 / 2 0 0 0 1 0.05 100\<close>.
\<close>

theorem calcCellSize_reads_north_slot_only:
  "calcCellSize
     [\<lparr>cc_id = 0, cc_x = Num 0, cc_y = Num 0, conn = [- 1, 1, - 1, - 1]\<rparr>,
      \<lparr>cc_id = 1, cc_x = Num 10, cc_y = Num 0, conn = [- 1, - 1, - 1, 0]\<rparr>] =
     Inl (Thrown Err_IncompatibleMesh) \<and>
   load ''run/CADPTS.DAT''
     \<lparr>CADPTS_DAT = Some [[field 1 1, field 0 0, field 0 0], [field 2 2, field 10 10, field 0 0]],
      FPLAIN_DAT =
        Some [[field 1 1, field 0 0, field 2 2, field 0 0, field 0 0, field 0 0.05, field 100 100],
              [field 2 2, field 0 0, field 0 0, field 0 0, field 1 1, field 0 0.05, field 100 100]],
      TIMDEP_OUT = None, DEPTH_OUT = None, VELFP_OUT = None, VELOC_OUT = None,
      TIMDEP_HDF5 = None\<rparr> =
     Inl (Thrown Err_IncompatibleMesh)"
  by (simp add: load_def geometry_defs upt_rec)

subsection \<open>The time-varying text reader\<close>

text \<open>
  Claim C4, evaluated on a mesh of two cells, one above the other (2 faces, 6 vertices),
  and a \<open>TIMDEP.OUT\<close> with one time marker followed by three per-face records. The
  claim makes the third record an incompatible-mesh failure. The reader compares the
  record counter with \<open>verticesCount\<close>, not with the number of faces, so the third
  record passes the check and is written behind the end of the buffers.
\<close>

theorem parseTIMDEPFile_third_record_on_two_faces:
  "load ''run/CADPTS.DAT''
     \<lparr>CADPTS_DAT = Some [[field 1 1, field 0 0, field 0 0], [field 2 2, field 0 0, field 10 10]],
      FPLAIN_DAT =
        Some [[field 1 1, field 2 2, field 0 0, field 0 0, field 0 0, field 0 0.05, field 100 100],
              [field 2 2, field 0 0, field 0 0, field 1 1, field 0 0, field 0 0.05, field 101 101]],
      TIMDEP_OUT =
        Some [[field 0 0.5],
              [field 1 1, field 1 1.5, field 2 2, field 1 1, field 1 1],
              [field 2 2, field 1 1.5, field 2 2, field 1 1, field 1 1],
              [field 3 3, field 1 1.5, field 2 2, field 1 1, field 1 1]],
      DEPTH_OUT = None, VELFP_OUT = None, VELOC_OUT = None,
      TIMDEP_HDF5 = None\<rparr> =
     Inl OutOfBounds"
  by (simp add: load_def geometry_defs dataset_defs reader_defs upt_rec Let_def)

subsection \<open>The binary writer\<close>

lemma uniqueGroupName_free:
  "\<not> pathExists hf (''/TIMDEP NETCDF OUTPUT RESULTS/'' @ n) \<Longrightarrow> uniqueGroupName hf nm i n = Some n"
  by (subst uniqueGroupName.simps) simp

text \<open>
  When the loop returns, the candidate name built from the counter is free or the name
  the loop was entered with is free: the loop tries no other name.
\<close>

lemma uniqueGroupName_returns:
  assumes "uniqueGroupName hf nm i n = Some r"
  shows "\<not> pathExists hf (''/TIMDEP NETCDF OUTPUT RESULTS/'' @ nm @ ''_'' @ to_string i) \<or>
         \<not> pathExists hf (''/TIMDEP NETCDF OUTPUT RESULTS/'' @ n)"
  using assms
proof (induction rule: uniqueGroupName.raw_induct [rotated 1, consumes 1, case_names step])
  case (step rec hf nm i n r)
  show ?case
  proof (cases "pathExists hf (''/TIMDEP NETCDF OUTPUT RESULTS/'' @ n)")
    case True
    with step(2) have "rec hf nm i (nm @ ''_'' @ to_string i) = Some r"
      by simp
    from step(1) [OF this] show ?thesis
      by blast
  next
    case False
    then show ?thesis
      by simp
  qed
qed

text \<open>
  Claim C9, evaluated on a store whose results group holds the sub-groups \<open>Depth\<close> and
  \<open>Depth_0\<close>, into which a face-associated group named \<open>Depth\<close> is persisted. The
  claim makes the derivation of the name end with a name that is not taken. The loop
  never advances its counter: it tries \<open>Depth_0\<close> again and again and does not return.
\<close>

theorem persist_name_collision_loops:
  "persist toFloat
     (Some \<lparr>fileValid = True, fileVersion = Some (Num 1), fileType = Some ''Xmdf'',
            resultsGroup =
              Some \<lparr>rg_attributes = [(''Grouptype'', AttrString ''Generic'')],
                    subgroups = [(''Depth'', \<lparr>attributes = [], arrays = []\<rparr>),
                                 (''Depth_0'', \<lparr>attributes = [], arrays = []\<rparr>)]\<rparr>\<rparr>)
     \<lparr>name = ''Depth'', uri = ''run/TIMDEP.HDF5'', isOnVertices = False, isScalar = True,
      datasets = [\<lparr>time = Num 1, dvalues = [Num 2]\<rparr>]\<rparr>
     1 = None"
proof -
  let ?hf = "\<lparr>fileValid = True, fileVersion = Some (Num 1), fileType = Some ''Xmdf'',
            resultsGroup =
              Some \<lparr>rg_attributes = [(''Grouptype'', AttrString ''Generic'')],
                    subgroups = [(''Depth'', \<lparr>attributes = [], arrays = []\<rparr>),
                                 (''Depth_0'', \<lparr>attributes = [], arrays = []\<rparr>)]\<rparr>\<rparr>"
  have "uniqueGroupName ?hf ''Depth'' 0 ''Depth'' = None"
  proof (cases "uniqueGroupName ?hf ''Depth'' 0 ''Depth''")
    case None
    then show ?thesis .
  next
    case (Some r)
    from uniqueGroupName_returns [OF this] show ?thesis
      by (simp add: pathExists_def to_string_def)
  qed
  then show ?thesis
    by (simp add: writer_defs Let_def)
qed

text \<open>
  Claim C3, evaluated on a scalar face-associated group with one dataset at time
  \<open>1.0\<close> holding the value \<open>2.0\<close> on a mesh of one face, persisted into a fresh
  store and read back. The claim gives the slice read back the time \<open>1.0\<close>. The writer
  creates the vector \<open>times\<close> with one zero and pushes the time \<open>1.0\<close> behind it; the
  array \<open>Times\<close> of one element receives the zero, and the reader returns the slice with
  time \<open>0.0\<close>.
\<close>

theorem persist_reload_loses_time:
  "persist toFloat None
     \<lparr>name = ''Depth'', uri = ''run/TIMDEP.HDF5'', isOnVertices = False, isScalar = True,
      datasets = [\<lparr>time = Num 1, dvalues = [Num 2]\<rparr>]\<rparr>
     1 =
     Some (False,
       Some \<lparr>fileValid = True, fileVersion = Some (Num 1), fileType = Some ''Xmdf'',
             resultsGroup =
               Some \<lparr>rg_attributes = [(''Grouptype'', AttrString ''Generic'')],
                     subgroups =
                       [(''Depth'',
                         \<lparr>attributes =
                            [(''Data Type'', AttrInt 0),
                             (''DatasetCompression'', AttrInt (- 1)),
                             (''Grouptype'', AttrString ''DATASET SCALAR''),
                             (''TimeUnits'', AttrString ''Hours'')],
                          arrays =
                            [(''Times'', [Num 0]),
                             (''Values'', [toFloat (Num 2)])]\<rparr>)]\<rparr>\<rparr>) \<and>
   parseHDF5Datasets
     \<lparr>vertices = [\<lparr>vx = Num 5, vy = Num (- 5)\<rparr>, \<lparr>vx = Num 5, vy = Num 5\<rparr>,
                  \<lparr>vx = Num (- 5), vy = Num 5\<rparr>, \<lparr>vx = Num (- 5), vy = Num (- 5)\<rparr>],
      faces = [[0, 1, 2, 3]], datasetGroups = []\<rparr>
     ''run/TIMDEP.HDF5''
     (Some \<lparr>fileValid = True, fileVersion = Some (Num 1), fileType = Some ''Xmdf'',
            resultsGroup =
              Some \<lparr>rg_attributes = [(''Grouptype'', AttrString ''Generic'')],
                    subgroups =
                      [(''Depth'',
                        \<lparr>attributes =
                           [(''Data Type'', AttrInt 0),
                            (''DatasetCompression'', AttrInt (- 1)),
                            (''Grouptype'', AttrString ''DATASET SCALAR''),
                            (''TimeUnits'', AttrString ''Hours'')],
                         arrays =
                           [(''Times'', [Num 0]),
                            (''Values'', [toFloat (Num 2)])]\<rparr>)]\<rparr>\<rparr>) =
     (False,
      \<lparr>vertices = [\<lparr>vx = Num 5, vy = Num (- 5)\<rparr>, \<lparr>vx = Num 5, vy = Num 5\<rparr>,
                   \<lparr>vx = Num (- 5), vy = Num 5\<rparr>, \<lparr>vx = Num (- 5), vy = Num (- 5)\<rparr>],
       faces = [[0, 1, 2, 3]],
       datasetGroups =
         [\<lparr>name = ''Depth'', uri = ''run/TIMDEP.HDF5'', isOnVertices = False, isScalar = True,
           datasets = [\<lparr>time = Num 0, dvalues = [getDouble (toFloat (Num 2))]\<rparr>]\<rparr>]\<rparr>)"
proof (rule conjI)
  show "persist toFloat None
     \<lparr>name = ''Depth'', uri = ''run/TIMDEP.HDF5'', isOnVertices = False, isScalar = True,
      datasets = [\<lparr>time = Num 1, dvalues = [Num 2]\<rparr>]\<rparr>
     1 =
     Some (False,
       Some \<lparr>fileValid = True, fileVersion = Some (Num 1), fileType = Some ''Xmdf'',
             resultsGroup =
               Some \<lparr>rg_attributes = [(''Grouptype'', AttrString ''Generic'')],
                     subgroups =
                       [(''Depth'',
                         \<lparr>attributes =
                            [(''Data Type'', AttrInt 0),
                             (''DatasetCompression'', AttrInt (- 1)),
                             (''Grouptype'', AttrString ''DATASET SCALAR''),
                             (''TimeUnits'', AttrString ''Hours'')],
                          arrays =
                            [(''Times'', [Num 0]),
                             (''Values'', [toFloat (Num 2)])]\<rparr>)]\<rparr>\<rparr>)"
    by (simp add: writer_defs toFlo2DDouble_def uniqueGroupName_free Let_def)
next
  show "parseHDF5Datasets
     \<lparr>vertices = [\<lparr>vx = Num 5, vy = Num (- 5)\<rparr>, \<lparr>vx = Num 5, vy = Num 5\<rparr>,
                  \<lparr>vx = Num (- 5), vy = Num 5\<rparr>, \<lparr>vx = Num (- 5), vy = Num (- 5)\<rparr>],
      faces = [[0, 1, 2, 3]], datasetGroups = []\<rparr>
     ''run/TIMDEP.HDF5''
     (Some \<lparr>fileValid = True, fileVersion = Some (Num 1), fileType = Some ''Xmdf'',
            resultsGroup =
              Some \<lparr>rg_attributes = [(''Grouptype'', AttrString ''Generic'')],
                    subgroups =
                      [(''Depth'',
                        \<lparr>attributes =
                           [(''Data Type'', AttrInt 0),
                            (''DatasetCompression'', AttrInt (- 1)),
                            (''Grouptype'', AttrString ''DATASET SCALAR''),
                            (''TimeUnits'', AttrString ''Hours'')],
                         arrays =
                           [(''Times'', [Num 0]),
                            (''Values'', [toFloat (Num 2)])]\<rparr>)]\<rparr>\<rparr>) =
     (False,
      \<lparr>vertices = [\<lparr>vx = Num 5, vy = Num (- 5)\<rparr>, \<lparr>vx = Num 5, vy = Num 5\<rparr>,
                   \<lparr>vx = Num (- 5), vy = Num 5\<rparr>, \<lparr>vx = Num (- 5), vy = Num (- 5)\<rparr>],
       faces = [[0, 1, 2, 3]],
       datasetGroups =
         [\<lparr>name = ''Depth'', uri = ''run/TIMDEP.HDF5'', isOnVertices = False, isScalar = True,
           datasets = [\<lparr>time = Num 0, dvalues = [getDouble (toFloat (Num 2))]\<rparr>]\<rparr>]\<rparr>)"
    by (simp add: reader_defs newDatasetGroup_def newMemoryDataset_def valuesCount_def
        facesCount_def addDatasetToGroup_def upt_rec Let_def)
qed

subsection \<open>Mesh reconstruction\<close>

lemma same_key_sym: "same_key a b \<Longrightarrow> same_key b a"
  by (simp add: same_key_def)

lemma VertexCompare_key: "VertexCompare a b = dless (vertex_key a) (vertex_key b)"
  by (simp add: VertexCompare_def vertex_key_def)

lemma same_key_refl: "same_key a a"
  by (cases "vertex_key a") (simp_all add: same_key_def VertexCompare_key)

lemma same_key_trans:
  assumes "finite_vertex a" "finite_vertex b" "finite_vertex c" "same_key a b" "same_key b c"
  shows "same_key a c"
  using assms
  by (cases "vertex_key a"; cases "vertex_key b"; cases "vertex_key c")
     (simp_all add: same_key_def VertexCompare_key finite_vertex_def)

lemma map_find_None:
  "map_find (zip vs [0..<length vs]) n = None \<longleftrightarrow> \<not> list_ex (\<lambda>v. same_key v n) vs"
proof
  assume "map_find (zip vs [0..<length vs]) n = None"
  then have *: "\<And>v i. (v, i) \<in> set (zip vs [0..<length vs]) \<Longrightarrow> \<not> same_key v n"
    by (auto simp: map_find_def find_None_iff)
  show "\<not> list_ex (\<lambda>v. same_key v n) vs"
  proof
    assume "list_ex (\<lambda>v. same_key v n) vs"
    then obtain i where "i < length vs" "same_key (vs ! i) n"
      by (auto simp: list_ex_iff in_set_conv_nth)
    moreover from this have "(vs ! i, i) \<in> set (zip vs [0..<length vs])"
      by (force simp: set_zip)
    ultimately show False using * by blast
  qed
next
  assume "\<not> list_ex (\<lambda>v. same_key v n) vs"
  then show "map_find (zip vs [0..<length vs]) n = None"
    by (auto simp: map_find_def find_None_iff list_ex_iff dest: set_zip_leftD)
qed

lemma map_find_Some:
  assumes "map_find (zip vs [0..<length vs]) n = Some i"
  shows "i < length vs \<and> same_key (vs ! i) n"
  using assms
  by (auto simp: map_find_def find_Some_iff)


lemma first_occurrences_append:
  "first_occurrences seen (xs @ ys) = first_occurrences (first_occurrences seen xs) ys"
  by (induction xs arbitrary: seen) simp_all

lemma first_occurrences_Cons:
  "first_occurrences (first_occurrences seen [n]) ns = first_occurrences seen (n # ns)"
  by simp

lemma first_occurrences_extends: "\<exists>ext. first_occurrences seen xs = seen @ ext"
proof (induction xs arbitrary: seen)
  case Nil
  show ?case by simp
next
  case (Cons n ns)
  show ?case
  proof (cases "list_ex (\<lambda>v. same_key v n) seen")
    case True
    with Cons.IH [of seen] show ?thesis by simp
  next
    case False
    from Cons.IH [of "seen @ [n]"] obtain ext where "first_occurrences (seen @ [n]) ns = (seen @ [n]) @ ext"
      by blast
    with False show ?thesis by simp
  qed
qed

text \<open>One corner.\<close>

lemma createMesh_position_step:
  assumes inv: "build_inv b" and fin: "finite_vertex (createVertex p h cell)"
    and res: "createMesh_position h cell p (b, e) = (b', e')"
  shows "build_inv b' \<and>
    b_vertices b' = first_occurrences (b_vertices b) [createVertex p h cell] \<and>
    (\<exists>k. e' = e[p := k] \<and> k < length (b_vertices b') \<and>
         same_key (b_vertices b' ! k) (createVertex p h cell))"
proof (cases "map_find (b_unique_vertices b) (createVertex p h cell)")
  case None
  let ?n = "createVertex p h cell"
  let ?vs = "b_vertices b"
  from inv have uv: "b_unique_vertices b = zip ?vs [0..<length ?vs]"
    and idx: "b_vertex_idx b = length ?vs"
    by (simp_all add: build_inv_def)
  from None uv have new: "\<not> list_ex (\<lambda>v. same_key v ?n) ?vs"
    by (simp add: map_find_None)
  from None res have b': "b' = \<lparr>b_unique_vertices = b_unique_vertices b @ [(?n, b_vertex_idx b)],
      b_vertices = ?vs @ [?n], b_vertex_idx = b_vertex_idx b + 1\<rparr>"
    and e': "e' = e[p := b_vertex_idx b]"
    by (auto simp: createMesh_position_def Let_def)
  have "build_inv b'"
    unfolding build_inv_def
  proof (intro conjI allI impI)
    show "b_vertex_idx b' = length (b_vertices b')"
      by (simp add: b' idx)
    show "b_unique_vertices b' = zip (b_vertices b') [0..<length (b_vertices b')]"
      by (simp add: b' uv idx)
    show "\<forall>v\<in>set (b_vertices b'). finite_vertex v"
      using inv fin by (simp add: b' build_inv_def)
  next
    fix i j
    assume i: "i < length (b_vertices b')" and j: "j < length (b_vertices b')"
      and k: "same_key (b_vertices b' ! i) (b_vertices b' ! j)"
    from new have no: "\<And>m. m < length ?vs \<Longrightarrow> \<not> same_key (?vs ! m) ?n"
      by (auto simp: list_ex_iff)
    from inv have old: "\<And>i j. i < length ?vs \<Longrightarrow> j < length ?vs \<Longrightarrow>
        same_key (?vs ! i) (?vs ! j) \<Longrightarrow> i = j"
      by (simp add: build_inv_def)
    show "i = j"
    proof (cases "i < length ?vs")
      case True
      note ti = True
      show ?thesis
      proof (cases "j < length ?vs")
        case True
        with ti k old show ?thesis by (simp add: b' nth_append)
      next
        case False
        with j have "j = length ?vs" by (simp add: b')
        with ti k no show ?thesis by (simp add: b' nth_append)
      qed
    next
      case False
      with i have il: "i = length ?vs" by (simp add: b')
      show ?thesis
      proof (cases "j < length ?vs")
        case True
        with il k have "same_key ?n (?vs ! j)" by (simp add: b' nth_append)
        with no [OF True] show ?thesis by (auto dest: same_key_sym)
      next
        case False
        with j il show ?thesis by (simp add: b')
      qed
    qed
  qed
  moreover have "b_vertices b' = first_occurrences ?vs [?n]"
    using new by (simp add: b')
  moreover have "e' = e[p := length ?vs] \<and> length ?vs < length (b_vertices b') \<and>
      same_key (b_vertices b' ! length ?vs) ?n"
    by (simp add: e' idx b' same_key_refl)
  ultimately show ?thesis by blast
next
  case (Some found)
  let ?n = "createVertex p h cell"
  let ?vs = "b_vertices b"
  from inv have uv: "b_unique_vertices b = zip ?vs [0..<length ?vs]"
    by (simp add: build_inv_def)
  from Some uv have f: "found < length ?vs \<and> same_key (?vs ! found) ?n"
    by (simp add: map_find_Some)
  then have ex: "list_ex (\<lambda>v. same_key v ?n) ?vs"
    by (auto simp: list_ex_iff)
  from Some res have "b' = b" "e' = e[p := found]"
    by (auto simp: createMesh_position_def Let_def)
  with inv f ex show ?thesis by auto
qed


text \<open>The four corners of one cell.\<close>

lemma createMesh_positions:
  assumes "build_inv b" and "\<forall>p\<in>set ps. finite_vertex (createVertex p h cell)"
    and "distinct ps" and "\<forall>p\<in>set ps. p < length e"
    and "fold (createMesh_position h cell) ps (b, e) = (b', e')"
  shows "build_inv b' \<and> length e' = length e \<and>
    b_vertices b' = first_occurrences (b_vertices b) (map (\<lambda>p. createVertex p h cell) ps) \<and>
    (\<forall>p\<in>set ps. e' ! p < length (b_vertices b') \<and>
       same_key (b_vertices b' ! (e' ! p)) (createVertex p h cell)) \<and>
    (\<forall>q. q \<notin> set ps \<longrightarrow> e' ! q = e ! q)"
  using assms
proof (induction ps arbitrary: b e)
  case Nil
  then show ?case by simp
next
  case (Cons p ps)
  obtain b1 e1 where step: "createMesh_position h cell p (b, e) = (b1, e1)"
    by (cases "createMesh_position h cell p (b, e)")
  from Cons.prems(2) have finp: "finite_vertex (createVertex p h cell)"
    by simp
  note st = createMesh_position_step [OF Cons.prems(1) finp step]
  from st have inv1: "build_inv b1" ..
  from st have vs1: "b_vertices b1 = first_occurrences (b_vertices b) [createVertex p h cell]"
    by blast
  from st have ex: "\<exists>k. e1 = e[p := k] \<and> k < length (b_vertices b1) \<and>
         same_key (b_vertices b1 ! k) (createVertex p h cell)"
    by blast
  from ex obtain k where e1: "e1 = e[p := k]" and k: "k < length (b_vertices b1)"
    and sk: "same_key (b_vertices b1 ! k) (createVertex p h cell)"
    by blast
  from Cons.prems(5) step have rest: "fold (createMesh_position h cell) ps (b1, e1) = (b', e')"
    by simp
  have fin_ps: "\<forall>p\<in>set ps. finite_vertex (createVertex p h cell)"
    using Cons.prems(2) by simp
  have dist_ps: "distinct ps" and notin: "p \<notin> set ps"
    using Cons.prems(3) by simp_all
  have len_ps: "\<forall>p\<in>set ps. p < length e1" and plen: "p < length e"
    using Cons.prems(4) by (simp_all add: e1)
  note IH = Cons.IH [OF inv1 fin_ps dist_ps len_ps rest]
  from IH have inv': "build_inv b'" ..
  from IH have len': "length e' = length e1" by blast
  from IH have vs': "b_vertices b' =
      first_occurrences (b_vertices b1) (map (\<lambda>p. createVertex p h cell) ps)" by blast
  from IH have ps': "\<forall>p\<in>set ps. e' ! p < length (b_vertices b') \<and>
       same_key (b_vertices b' ! (e' ! p)) (createVertex p h cell)" by blast
  from IH have out': "\<forall>q. q \<notin> set ps \<longrightarrow> e' ! q = e1 ! q" by blast
  from first_occurrences_extends [of "b_vertices b1" "map (\<lambda>p. createVertex p h cell) ps"] vs'
  obtain ext where ext: "b_vertices b' = b_vertices b1 @ ext"
    by auto
  from out' notin have "e' ! p = e1 ! p"
    by blast
  with plen have ek: "e' ! p = k"
    by (simp add: e1)
  have p1: "e' ! p < length (b_vertices b')"
    using k by (simp add: ek ext)
  have p2: "same_key (b_vertices b' ! (e' ! p)) (createVertex p h cell)"
    using k sk by (simp add: ek ext nth_append)
  have vs: "b_vertices b' =
      first_occurrences (b_vertices b) (map (\<lambda>p. createVertex p h cell) (p # ps))"
    unfolding vs' vs1 by (simp only: list.map first_occurrences_Cons)
  have others: "\<forall>q. q \<notin> set (p # ps) \<longrightarrow> e' ! q = e ! q"
  proof (intro allI impI)
    fix q assume "q \<notin> set (p # ps)"
    then have "q \<noteq> p" "q \<notin> set ps" by simp_all
    with out' have "e' ! q = e1 ! q" by blast
    with \<open>q \<noteq> p\<close> show "e' ! q = e ! q" by (simp add: e1)
  qed
  have all: "\<forall>q\<in>set (p # ps). e' ! q < length (b_vertices b') \<and>
       same_key (b_vertices b' ! (e' ! q)) (createVertex q h cell)"
    using p1 p2 ps' by simp
  have "length e' = length e"
    using len' by (simp add: e1)
  with inv' vs all others show ?case
    by blast
qed

lemma good_face_extend: "good_face vs h c e \<Longrightarrow> good_face (vs @ ext) h c e"
  by (auto simp: good_face_def nth_append)

lemma less_4_cases: "p < (4::nat) \<Longrightarrow> p = 0 \<or> p = 1 \<or> p = 2 \<or> p = 3"
  by arith

text \<open>The loop over the cells.\<close>

lemma createMesh_cells_result:
  assumes "build_inv b" and "\<forall>c\<in>set cells. \<forall>p<4. finite_vertex (createVertex p h c)"
    and "createMesh_cells h cells (b, fs) = (b', fs')"
  shows "build_inv b' \<and>
    b_vertices b' = first_occurrences (b_vertices b) (concat (map (cell_corners h) cells)) \<and>
    (\<exists>new. fs' = fs @ new \<and> length new = length cells \<and>
       (\<forall>i<length cells. good_face (b_vertices b') h (cells ! i) (new ! i)))"
  using assms
proof (induction cells arbitrary: b fs)
  case Nil
  then show ?case by simp
next
  case (Cons c cells)
  obtain b1 e where corners: "fold (createMesh_position h c) [0, 1, 2, 3] (b, replicate 4 0) = (b1, e)"
    by (cases "fold (createMesh_position h c) [0, 1, 2, 3] (b, replicate 4 0)")
  have c4: "build_inv b1 \<and> length e = length (replicate 4 (0::nat)) \<and>
    b_vertices b1 = first_occurrences (b_vertices b) (map (\<lambda>p. createVertex p h c) [0, 1, 2, 3]) \<and>
    (\<forall>p\<in>set [0, 1, 2, 3]. e ! p < length (b_vertices b1) \<and>
       same_key (b_vertices b1 ! (e ! p)) (createVertex p h c)) \<and>
    (\<forall>q. q \<notin> set [0, 1, 2, 3] \<longrightarrow> e ! q = replicate 4 0 ! q)"
    using Cons.prems(1,2) corners by (intro createMesh_positions) simp_all
  from c4 have inv1: "build_inv b1" ..
  from c4 [THEN conjunct2, THEN conjunct1] have len4: "length e = 4"
    by simp
  from c4 [THEN conjunct2, THEN conjunct2, THEN conjunct1]
  have vs1: "b_vertices b1 = first_occurrences (b_vertices b) (cell_corners h c)"
    by (simp only: cell_corners_def)
  note c4' = c4 [THEN conjunct2, THEN conjunct2, THEN conjunct2, THEN conjunct1]
  have gf1: "good_face (b_vertices b1) h c e"
    unfolding good_face_def
  proof (intro conjI allI impI)
    show "length e = 4" by (rule len4)
  next
    fix p :: nat assume "p < 4"
    then have "p \<in> set [0, 1, 2, 3]"
      by (auto dest: less_4_cases)
    with c4' show "e ! p < length (b_vertices b1)"
      by blast
    from c4' \<open>p \<in> set [0, 1, 2, 3]\<close>
    show "same_key (b_vertices b1 ! (e ! p)) (createVertex p h c)"
      by blast
  qed
  from Cons.prems(3) corners
  have rest: "createMesh_cells h cells (b1, fs @ [e]) = (b', fs')"
    by simp
  have IH: "build_inv b' \<and>
    b_vertices b' = first_occurrences (b_vertices b1) (concat (map (cell_corners h) cells)) \<and>
    (\<exists>new. fs' = (fs @ [e]) @ new \<and> length new = length cells \<and>
       (\<forall>i<length cells. good_face (b_vertices b') h (cells ! i) (new ! i)))"
    using inv1 Cons.prems(2) rest by (intro Cons.IH) simp_all
  then obtain new where new: "fs' = (fs @ [e]) @ new" "length new = length cells"
    "\<forall>i<length cells. good_face (b_vertices b') h (cells ! i) (new ! i)"
    by blast
  from IH obtain ext where "b_vertices b' = b_vertices b1 @ ext"
    using first_occurrences_extends by metis
  with gf1 have gf: "good_face (b_vertices b') h c e"
    by (simp add: good_face_extend)
  have "fs' = fs @ (e # new) \<and> length (e # new) = length (c # cells) \<and>
       (\<forall>i<length (c # cells). good_face (b_vertices b') h ((c # cells) ! i) ((e # new) ! i))"
    using new gf by (auto simp: nth_Cons split: nat.splits)
  moreover have "b_vertices b' =
      first_occurrences (b_vertices b) (concat (map (cell_corners h) (c # cells)))"
    using IH vs1 by (simp add: first_occurrences_append)
  ultimately show ?case
    using IH by blast
qed

text \<open>
  Claim C6. For cell centres and a half cell size such that the key of every corner
  point, as the comparator computes it in binary64, is not \<open>NaN\<close>, the mesh that
  \<open>createMesh\<close> builds has one face per cell; every face holds four vertex indices,
  each below the number of vertices; two corner points with equal keys get the same
  vertex index; and the vertices are the corner points in the order of their first
  occurrence, so that the index of a corner is the position of the first corner with an
  equal key among the first occurrences.
\<close>

theorem createMesh_faces_and_vertices:
  assumes "\<forall>c\<in>set cells. \<forall>p<4.
             \<not> isnan (vertex_key (createVertex p half_cell_size c))"
  shows "length (faces (createMesh cells half_cell_size)) = length cells \<and>
    (\<forall>e\<in>set (faces (createMesh cells half_cell_size)).
       length e = 4 \<and> (\<forall>k\<in>set e. k < length (vertices (createMesh cells half_cell_size)))) \<and>
    (\<forall>i<length cells. \<forall>j<length cells. \<forall>p<4. \<forall>q<4.
       same_key (createVertex p half_cell_size (cells ! i))
                (createVertex q half_cell_size (cells ! j)) \<longrightarrow>
       faces (createMesh cells half_cell_size) ! i ! p =
       faces (createMesh cells half_cell_size) ! j ! q) \<and>
    vertices (createMesh cells half_cell_size) =
      first_occurrences [] (concat (map (cell_corners half_cell_size) cells)) \<and>
    (\<forall>i<length cells. \<forall>p<4.
       same_key (vertices (createMesh cells half_cell_size) !
                   (faces (createMesh cells half_cell_size) ! i ! p))
                (createVertex p half_cell_size (cells ! i)))"
proof -
  let ?h = half_cell_size
  let ?b0 = "\<lparr>b_unique_vertices = [], b_vertices = [], b_vertex_idx = 0\<rparr>"
  obtain b fs where run: "createMesh_cells ?h cells (?b0, []) = (b, fs)"
    by (cases "createMesh_cells ?h cells (?b0, [])")
  then have m: "vertices (createMesh cells ?h) = b_vertices b" "faces (createMesh cells ?h) = fs"
    by (simp_all add: createMesh_def)
  have fin: "\<forall>c\<in>set cells. \<forall>p<4. finite_vertex (createVertex p ?h c)"
    using assms by (simp add: finite_vertex_def)
  have "build_inv ?b0"
    by (simp add: build_inv_def)
  from createMesh_cells_result [OF this fin run]
  have inv: "build_inv b"
    and vs: "b_vertices b = first_occurrences [] (concat (map (cell_corners ?h) cells))"
    and len: "length fs = length cells"
    and gf: "\<forall>i<length cells. good_face (b_vertices b) ?h (cells ! i) (fs ! i)"
    by auto
  have 1: "\<forall>e\<in>set fs. length e = 4 \<and> (\<forall>k\<in>set e. k < length (b_vertices b))"
  proof
    fix e assume "e \<in> set fs"
    then obtain i where "i < length cells" "e = fs ! i"
      using len by (auto simp: in_set_conv_nth)
    with gf have "good_face (b_vertices b) ?h (cells ! i) e"
      by simp
    then show "length e = 4 \<and> (\<forall>k\<in>set e. k < length (b_vertices b))"
      by (auto simp: good_face_def in_set_conv_nth)
  qed
  have 2: "fs ! i ! p = fs ! j ! q"
    if "i < length cells" "j < length cells" "p < 4" "q < 4"
      and sk: "same_key (createVertex p ?h (cells ! i)) (createVertex q ?h (cells ! j))"
    for i j p q
  proof -
    let ?a = "fs ! i ! p" and ?c = "fs ! j ! q"
    from gf that have a: "?a < length (b_vertices b)"
        "same_key (b_vertices b ! ?a) (createVertex p ?h (cells ! i))"
      and c: "?c < length (b_vertices b)"
        "same_key (b_vertices b ! ?c) (createVertex q ?h (cells ! j))"
      by (simp_all add: good_face_def)
    from inv a(1) c(1) have fa: "finite_vertex (b_vertices b ! ?a)"
      and fc: "finite_vertex (b_vertices b ! ?c)"
      by (simp_all add: build_inv_def)
    from fin that have fp: "finite_vertex (createVertex p ?h (cells ! i))"
      and fq: "finite_vertex (createVertex q ?h (cells ! j))"
      by simp_all
    have "same_key (b_vertices b ! ?a) (createVertex q ?h (cells ! j))"
      using fa fp fq a(2) sk by (rule same_key_trans)
    then have "same_key (b_vertices b ! ?a) (b_vertices b ! ?c)"
      using fa fq fc c(2) by (blast intro: same_key_trans same_key_sym)
    with inv a(1) c(1) show ?thesis
      by (simp add: build_inv_def)
  qed
  have 3: "\<forall>i<length cells. \<forall>p<4.
       same_key (b_vertices b ! (fs ! i ! p)) (createVertex p ?h (cells ! i))"
    using gf by (simp add: good_face_def)
  from len 1 2 vs 3 show ?thesis
    unfolding m by blast
qed

lemma all_less_4: "(\<forall>p<4. P p) \<longleftrightarrow> P (0::nat) \<and> P 1 \<and> P 2 \<and> P 3"
  by (auto dest: less_4_cases)

theorem createMesh_faces_and_vertices_witness:
  "length (faces (createMesh example_cells (Num 5))) = length example_cells \<and>
   vertices (createMesh example_cells (Num 5)) =
     first_occurrences [] (concat (map (cell_corners (Num 5)) example_cells)) \<and>
   faces (createMesh example_cells (Num 5)) = [[0, 1, 2, 3], [1, 4, 5, 2]]"
proof -
  have h: "\<forall>c\<in>set example_cells. \<forall>p<4.
      \<not> isnan (vertex_key (createVertex p (Num 5) c))"
    by (simp add: example_cells_def all_less_4 createVertex_def vertex_key_def binary64_exact
        Let_def)
  note t = createMesh_faces_and_vertices [OF h]
  from t have a: "length (faces (createMesh example_cells (Num 5))) = length example_cells" ..
  from t have b: "vertices (createMesh example_cells (Num 5)) =
      first_occurrences [] (concat (map (cell_corners (Num 5)) example_cells))"
    by blast
  have c: "faces (createMesh example_cells (Num 5)) = [[0, 1, 2, 3], [1, 4, 5, 2]]"
    by (simp add: example_cells_def geometry_defs Let_def eval_nat_numeral)
  from a b c show ?thesis
    by blast
qed

subsection \<open>Readers push dataset groups behind the present ones\<close>

lemma appends_with_refl: "appends_with P m m"
  unfolding appends_with_def by (rule exI [of _ "[]"]) simp

lemma appends_withI:
  "\<forall>t\<in>set new. P t \<Longrightarrow> appends_with P m (m\<lparr>datasetGroups := datasetGroups m @ new\<rparr>)"
  unfolding appends_with_def by blast

lemma appends_with_trans:
  assumes "appends_with P a b" "appends_with P b c"
  shows "appends_with P a c"
proof -
  from assms obtain n1 n2 where "b = a\<lparr>datasetGroups := datasetGroups a @ n1\<rparr>"
    "c = b\<lparr>datasetGroups := datasetGroups b @ n2\<rparr>" "\<forall>t\<in>set n1. P t" "\<forall>t\<in>set n2. P t"
    unfolding appends_with_def by blast
  then have "c = a\<lparr>datasetGroups := datasetGroups a @ (n1 @ n2)\<rparr>" "\<forall>t\<in>set (n1 @ n2). P t"
    by auto
  then show ?thesis
    unfolding appends_with_def by blast
qed

lemma addStaticDataset_Inr:
  assumes "addStaticDataset vals gn dat mesh = Inr m'"
  shows "length vals = facesCount mesh \<and>
    m' = mesh\<lparr>datasetGroups := datasetGroups mesh @
           [\<lparr>name = gn, uri = dat, isOnVertices = False, isScalar = True,
             datasets = [\<lparr>time = Num 0, dvalues = vals\<rparr>]\<rparr>]\<rparr>"
  using assms
  by (auto simp: addStaticDataset_def newDatasetGroup_def valuesCount_def Let_def split: if_splits)

lemma addStaticDataset_appends:
  assumes "addStaticDataset vals gn dat mesh = Inr m'"
  shows "appends_with (\<lambda>t. uri t = dat) mesh m'"
proof -
  from addStaticDataset_Inr [OF assms]
  have "m' = mesh\<lparr>datasetGroups := datasetGroups mesh @
           [\<lparr>name = gn, uri = dat, isOnVertices = False, isScalar = True,
             datasets = [\<lparr>time = Num 0, dvalues = vals\<rparr>]\<rparr>]\<rparr>" ..
  then show ?thesis
    by (simp add: appends_withI)
qed


lemma addDatasetToGroup_uri [simp]: "uri (addDatasetToGroup mesh d x) = uri d"
  by (simp add: addDatasetToGroup_def)

lemma addDatasetToGroup_name [simp]: "name (addDatasetToGroup mesh d x) = name d"
  by (simp add: addDatasetToGroup_def)

lemma flushDataset_uri [simp]: "uri (flushDataset mesh d x) = uri d"
  by (simp add: flushDataset_def split: option.splits)

lemma parseTIMDEP_lines_uri:
  "parseTIMDEP_lines mesh el ls st = Inr st' \<Longrightarrow>
     uri (depthDsGroup st') = uri (depthDsGroup st) \<and>
     uri (flowDsGroup st') = uri (flowDsGroup st) \<and>
     uri (waterLevelDsGroup st') = uri (waterLevelDsGroup st)"
proof (induction ls arbitrary: st)
  case Nil
  then show ?case by simp
next
  case (Cons l ls)
  show ?case
  proof (cases "length l = 1")
    case True
    with Cons.prems show ?thesis
      by (auto simp: Let_def dest!: Cons.IH)
  next
    case False
    with Cons.prems show ?thesis
      by (auto simp: Let_def split: if_splits option.splits dest!: Cons.IH)
  qed
qed

lemma parseTIMDEPFile_appends:
  assumes "parseTIMDEPFile dat f el mesh = Inr m'"
  shows "appends_with (\<lambda>t. uri t = dat) mesh m'"
proof (cases f)
  case None
  with assms show ?thesis
    by (simp add: parseTIMDEPFile_def appends_with_refl)
next
  case (Some ls)
  with assms show ?thesis
    by (auto simp: parseTIMDEPFile_def newDatasetGroup_def split: sum.splits
        dest!: parseTIMDEP_lines_uri intro!: appends_withI)
qed

lemma parseDEPTHFile_appends:
  assumes "parseDEPTHFile dat f el mesh = Inr m'"
  shows "appends_with (\<lambda>t. uri t = dat) mesh m'"
proof (cases f)
  case None
  with assms show ?thesis
    by (simp add: parseDEPTHFile_def appends_with_refl)
next
  case (Some ls)
  with assms obtain a b mesh1 where
    "addStaticDataset a ''Depth/Maximums'' dat mesh = Inr mesh1"
    "addStaticDataset b ''Water Level/Maximums'' dat mesh1 = Inr m'"
    by (auto simp: parseDEPTHFile_def Let_def split: sum.splits prod.splits)
  then show ?thesis
    by (blast intro: appends_with_trans dest: addStaticDataset_appends)
qed

lemma parseVELFPVELOCFile_appends:
  assumes "parseVELFPVELOCFile dat f1 f2 mesh = Inr m'"
  shows "appends_with (\<lambda>t. uri t = dat) mesh m'"
  using assms
  by (auto simp: parseVELFPVELOCFile_def Let_def appends_with_refl split: option.splits sum.splits
      dest!: addStaticDataset_appends)

lemma parseOUTDatasets_appends:
  assumes "parseOUTDatasets dat t d vf vc el mesh = Inr m'"
  shows "appends_with (\<lambda>t. uri t = dat) mesh m'"
proof -
  from assms obtain m1 m2 where "parseTIMDEPFile dat t el mesh = Inr m1"
    "parseDEPTHFile dat d el m1 = Inr m2" "parseVELFPVELOCFile dat vf vc m2 = Inr m'"
    by (auto simp: parseOUTDatasets_def split: sum.splits)
  then show ?thesis
    by (blast intro: appends_with_trans
        dest: parseTIMDEPFile_appends parseDEPTHFile_appends parseVELFPVELOCFile_appends)
qed

lemma facesCount_datasetGroups [simp]:
  "facesCount (mesh\<lparr>datasetGroups := gs\<rparr>) = facesCount mesh"
  by (simp add: facesCount_def)

lemma valuesCount_datasetGroups [simp]:
  "valuesCount (mesh\<lparr>datasetGroups := gs\<rparr>) = valuesCount mesh"
  by (intro ext) (simp add: valuesCount_def verticesCount_def)

lemma addDatasetToGroup_datasetGroups [simp]:
  "addDatasetToGroup (mesh\<lparr>datasetGroups := gs\<rparr>) = addDatasetToGroup mesh"
  by (intro ext) (simp add: addDatasetToGroup_def)

lemma hdf5_output_datasetGroups [simp]:
  "hdf5_output (mesh\<lparr>datasetGroups := gs\<rparr>) = hdf5_output mesh"
  by (intro ext) (simp add: hdf5_output_def newMemoryDataset_def)

lemma parseHDF5_group_datasetGroups [simp]:
  "parseHDF5_group (mesh\<lparr>datasetGroups := gs\<rparr>) = parseHDF5_group mesh"
  by (intro ext) (simp add: parseHDF5_group_def Let_def cong: option.case_cong if_cong)

lemma fold_addDatasetToGroup_uri_name:
  "uri (fold (\<lambda>ts d. addDatasetToGroup mesh d (f d ts)) tss ds) = uri ds \<and>
   name (fold (\<lambda>ts d. addDatasetToGroup mesh d (f d ts)) tss ds) = name ds"
  by (induction tss arbitrary: ds) simp_all

lemma parseHDF5_group_uri_name:
  assumes "parseHDF5_group mesh fn n g = Some ds"
  shows "uri ds = fn \<and> name ds = n"
  using assms
  by (auto simp: parseHDF5_group_def Let_def fold_addDatasetToGroup_uri_name newDatasetGroup_def
      split: option.splits if_splits)

lemma parseHDF5_group_the:
  assumes "parseHDF5_group mesh fn n g \<noteq> None"
  shows "uri (the (parseHDF5_group mesh fn n g)) = fn \<and> name (the (parseHDF5_group mesh fn n g)) = n"
  using assms by (cases "parseHDF5_group mesh fn n g") (auto dest: parseHDF5_group_uri_name)

lemma parseHDF5_groups_failure:
  assumes "\<forall>(n', g')\<in>set good. parseHDF5_group mesh fn n' g' \<noteq> None"
    and "parseHDF5_group mesh fn n g = None"
  shows "parseHDF5_groups fn (good @ (n, g) # rest) mesh =
    (True, mesh\<lparr>datasetGroups := datasetGroups mesh @
       map (\<lambda>(n', g'). the (parseHDF5_group mesh fn n' g')) good\<rparr>)"
  using assms
proof (induction good arbitrary: mesh)
  case Nil
  then show ?case by simp
next
  case (Cons a good)
  obtain n' g' where a: "a = (n', g')" by (cases a)
  from Cons.prems a obtain ds where ds: "parseHDF5_group mesh fn n' g' = Some ds" by auto
  have "parseHDF5_groups fn ((a # good) @ (n, g) # rest) mesh =
      parseHDF5_groups fn (good @ (n, g) # rest) (mesh\<lparr>datasetGroups := datasetGroups mesh @ [ds]\<rparr>)"
    by (simp add: a ds)
  also have "\<dots> = (True, (mesh\<lparr>datasetGroups := datasetGroups mesh @ [ds]\<rparr>)\<lparr>datasetGroups := datasetGroups (mesh\<lparr>datasetGroups := datasetGroups mesh @ [ds]\<rparr>) @
       map (\<lambda>(n', g'). the (parseHDF5_group (mesh\<lparr>datasetGroups := datasetGroups mesh @ [ds]\<rparr>) fn n' g')) good\<rparr>)"
    using Cons.prems by (intro Cons.IH) auto
  finally show ?case by (simp add: a ds)
qed



lemma createMesh_datasetGroups: "datasetGroups (createMesh cells h) = []"
  by (simp add: createMesh_def split: prod.splits)


subsection \<open>The load\<close>

lemmas example_defs = example_files_def example_store_def




text \<open>
  Claim C1 as stated fails. The store of the example has a well-formed sub-group
  \<open>Depth\<close> followed by a sub-group without type attribute; the binary reader fails at
  the second, the text reader of \<open>DEPTH.OUT\<close> runs, and the mesh that is returned still
  holds the group \<open>Depth\<close> read from the store.
\<close>

theorem load_keeps_partial_binary_group:
  "load ''run/CADPTS.DAT''
     (example_files
        \<lparr>DEPTH_OUT :=
           Some [[field 1 1, field 0 0, field 0 0, field 1 1.5],
                 [field 2 2, field 0 0, field 10 10, field 0 0]],
         TIMDEP_HDF5 := Some example_store\<rparr>) =
     Inr \<lparr>vertices =
         [\<lparr>vx = Num 5, vy = Num (- 5)\<rparr>, \<lparr>vx = Num 5, vy = Num 5\<rparr>,
          \<lparr>vx = Num (- 5), vy = Num 5\<rparr>, \<lparr>vx = Num (- 5), vy = Num (- 5)\<rparr>,
          \<lparr>vx = Num 5, vy = Num 15\<rparr>, \<lparr>vx = Num (- 5), vy = Num 15\<rparr>],
       faces = [[0, 1, 2, 3], [1, 4, 5, 2]],
       datasetGroups = 
         [\<lparr>name = ''Bed Elevation'', uri = ''run/CADPTS.DAT'', isOnVertices = False,
            isScalar = True,
            datasets = [\<lparr>time = Num 0, dvalues = [Num 100, Num 101]\<rparr>]\<rparr>,
          \<lparr>name = ''Depth'', uri = ''run/TIMDEP.HDF5'', isOnVertices = False, isScalar = True,
            datasets = [\<lparr>time = Num 1, dvalues = [Num (3 / 2), Num (5 / 2)]\<rparr>]\<rparr>,
          \<lparr>name = ''Depth/Maximums'', uri = ''run/CADPTS.DAT'', isOnVertices = False,
            isScalar = True,
            datasets = [\<lparr>time = Num 0, dvalues = [Num (3 / 2), NaN]\<rparr>]\<rparr>,
          \<lparr>name = ''Water Level/Maximums'', uri = ''run/CADPTS.DAT'', isOnVertices = False,
            isScalar = True,
            datasets = [\<lparr>time = Num 0, dvalues = [Num (203 / 2), NaN]\<rparr>]\<rparr>]\<rparr>"
  by (simp add: load_def example_defs geometry_defs dataset_defs reader_defs upt_rec Let_def
        eval_nat_numeral)

text \<open>
  Claim C1, amended. When the geometry is read and the binary reader fails at a
  sub-group of the store, the groups built from the sub-groups before it stay on the
  mesh behind \<open>Bed Elevation\<close>; the load returns what the text readers return on
  that mesh, so it succeeds when they do, and their groups come behind the groups of
  the store.
\<close>

theorem load_binary_failure_keeps_groups:
  assumes "parseCADPTSFile (CADPTS_DAT files) [] = Inr cells0"
    and "parseFPLAINFile (FPLAIN_DAT files) cells0 = Inr (elevations, cells)"
    and "calcCellSize cells = Inr cell_size"
    and "addStaticDataset elevations ''Bed Elevation'' resultsFile
           (createMesh cells (ddiv2 cell_size)) = Inr mesh"
    and "TIMDEP_HDF5 files = Some hf" and "fileValid hf" and "resultsGroup hf = Some rg"
    and "subgroups rg = good @ (n, g) # rest"
    and "\<forall>(n', g')\<in>set good.
           parseHDF5_group mesh (fileNameFromDir resultsFile ''TIMDEP.HDF5'') n' g' \<noteq> None"
    and "parseHDF5_group mesh (fileNameFromDir resultsFile ''TIMDEP.HDF5'') n g = None"
  shows "load resultsFile files =
      parseOUTDatasets resultsFile (TIMDEP_OUT files) (DEPTH_OUT files) (VELFP_OUT files)
        (VELOC_OUT files) elevations
        (mesh\<lparr>datasetGroups := datasetGroups mesh @
           map (\<lambda>(n', g'). the (parseHDF5_group mesh (fileNameFromDir resultsFile ''TIMDEP.HDF5'') n' g')) good\<rparr>) \<and>
    (\<forall>m. load resultsFile files = Inr m \<longrightarrow>
       (\<exists>bed partial others. datasetGroups m = bed # partial @ others \<and>
          name bed = ''Bed Elevation'' \<and>
          partial = map (\<lambda>(n', g'). the (parseHDF5_group mesh (fileNameFromDir resultsFile ''TIMDEP.HDF5'') n' g')) good \<and>
          map name partial = map fst good \<and>
          (\<forall>p\<in>set partial. uri p = fileNameFromDir resultsFile ''TIMDEP.HDF5'') \<and>
          (\<forall>t\<in>set others. uri t = resultsFile)))"
proof -
  let ?fn = "fileNameFromDir resultsFile ''TIMDEP.HDF5''"
  let ?partial = "map (\<lambda>(n', g'). the (parseHDF5_group mesh ?fn n' g')) good"
  let ?mesh2 = "mesh\<lparr>datasetGroups := datasetGroups mesh @ ?partial\<rparr>"
  have hdf: "parseHDF5Datasets mesh ?fn (TIMDEP_HDF5 files) = (True, ?mesh2)"
    using assms(5-8) parseHDF5_groups_failure [OF assms(9,10)]
    by (simp add: parseHDF5Datasets_def)
  have eq: "load resultsFile files =
      parseOUTDatasets resultsFile (TIMDEP_OUT files) (DEPTH_OUT files) (VELFP_OUT files)
        (VELOC_OUT files) elevations ?mesh2"
    by (simp add: load_def assms(1-4) hdf)
  have bed: "datasetGroups mesh =
      [\<lparr>name = ''Bed Elevation'', uri = resultsFile, isOnVertices = False, isScalar = True,
        datasets = [\<lparr>time = Num 0, dvalues = elevations\<rparr>]\<rparr>]"
    using addStaticDataset_Inr [OF assms(4)] by (simp add: createMesh_datasetGroups)
  have "uri (the (parseHDF5_group mesh ?fn a b)) = ?fn \<and>
        name (the (parseHDF5_group mesh ?fn a b)) = a" if "(a, b) \<in> set good" for a b
    using assms(9) that by (intro parseHDF5_group_the) auto
  then have names: "map name ?partial = map fst good"
    and uris: "\<forall>p\<in>set ?partial. uri p = ?fn"
    by auto
  have "\<exists>bed partial others. datasetGroups m = bed # partial @ others \<and>
          name bed = ''Bed Elevation'' \<and> partial = ?partial \<and>
          map name partial = map fst good \<and>
          (\<forall>p\<in>set partial. uri p = ?fn) \<and>
          (\<forall>t\<in>set others. uri t = resultsFile)" if "load resultsFile files = Inr m" for m
  proof -
    from that eq have "appends_with (\<lambda>t. uri t = resultsFile) ?mesh2 m"
      by (auto dest: parseOUTDatasets_appends)
    then obtain others where "m = ?mesh2\<lparr>datasetGroups := datasetGroups ?mesh2 @ others\<rparr>"
      "\<forall>t\<in>set others. uri t = resultsFile"
      unfolding appends_with_def by blast
    with bed names uris show ?thesis
      by simp
  qed
  with eq show ?thesis
    by blast
qed

theorem load_binary_failure_keeps_groups_witness:
  "load ''run/CADPTS.DAT''
     (example_files
        \<lparr>DEPTH_OUT :=
           Some [[field 1 1, field 0 0, field 0 0, field 1 1.5],
                 [field 2 2, field 0 0, field 10 10, field 0 0]],
         TIMDEP_HDF5 := Some example_store\<rparr>) =
     Inr \<lparr>vertices =
         [\<lparr>vx = Num 5, vy = Num (- 5)\<rparr>, \<lparr>vx = Num 5, vy = Num 5\<rparr>,
          \<lparr>vx = Num (- 5), vy = Num 5\<rparr>, \<lparr>vx = Num (- 5), vy = Num (- 5)\<rparr>,
          \<lparr>vx = Num 5, vy = Num 15\<rparr>, \<lparr>vx = Num (- 5), vy = Num 15\<rparr>],
       faces = [[0, 1, 2, 3], [1, 4, 5, 2]],
       datasetGroups = 
         [\<lparr>name = ''Bed Elevation'', uri = ''run/CADPTS.DAT'', isOnVertices = False,
            isScalar = True,
            datasets = [\<lparr>time = Num 0, dvalues = [Num 100, Num 101]\<rparr>]\<rparr>,
          \<lparr>name = ''Depth'', uri = ''run/TIMDEP.HDF5'', isOnVertices = False, isScalar = True,
            datasets = [\<lparr>time = Num 1, dvalues = [Num (3 / 2), Num (5 / 2)]\<rparr>]\<rparr>,
          \<lparr>name = ''Depth/Maximums'', uri = ''run/CADPTS.DAT'', isOnVertices = False,
            isScalar = True,
            datasets = [\<lparr>time = Num 0, dvalues = [Num (3 / 2), NaN]\<rparr>]\<rparr>,
          \<lparr>name = ''Water Level/Maximums'', uri = ''run/CADPTS.DAT'', isOnVertices = False,
            isScalar = True,
            datasets = [\<lparr>time = Num 0, dvalues = [Num (203 / 2), NaN]\<rparr>]\<rparr>]\<rparr> \<and>
   (\<exists>bed partial others.
      datasetGroups \<lparr>vertices =
         [\<lparr>vx = Num 5, vy = Num (- 5)\<rparr>, \<lparr>vx = Num 5, vy = Num 5\<rparr>,
          \<lparr>vx = Num (- 5), vy = Num 5\<rparr>, \<lparr>vx = Num (- 5), vy = Num (- 5)\<rparr>,
          \<lparr>vx = Num 5, vy = Num 15\<rparr>, \<lparr>vx = Num (- 5), vy = Num 15\<rparr>],
       faces = [[0, 1, 2, 3], [1, 4, 5, 2]],
       datasetGroups = 
         [\<lparr>name = ''Bed Elevation'', uri = ''run/CADPTS.DAT'', isOnVertices = False,
            isScalar = True,
            datasets = [\<lparr>time = Num 0, dvalues = [Num 100, Num 101]\<rparr>]\<rparr>,
          \<lparr>name = ''Depth'', uri = ''run/TIMDEP.HDF5'', isOnVertices = False, isScalar = True,
            datasets = [\<lparr>time = Num 1, dvalues = [Num (3 / 2), Num (5 / 2)]\<rparr>]\<rparr>,
          \<lparr>name = ''Depth/Maximums'', uri = ''run/CADPTS.DAT'', isOnVertices = False,
            isScalar = True,
            datasets = [\<lparr>time = Num 0, dvalues = [Num (3 / 2), NaN]\<rparr>]\<rparr>,
          \<lparr>name = ''Water Level/Maximums'', uri = ''run/CADPTS.DAT'', isOnVertices = False,
            isScalar = True,
            datasets = [\<lparr>time = Num 0, dvalues = [Num (203 / 2), NaN]\<rparr>]\<rparr>]\<rparr> = bed # partial @ others \<and>
      name bed = ''Bed Elevation'' \<and> map name partial = [''Depth''] \<and>
      list_all (\<lambda>p. uri p = ''run/TIMDEP.HDF5'') partial \<and>
      list_all (\<lambda>t. uri t = ''run/CADPTS.DAT'') others)"
proof -
  let ?rf = "''run/CADPTS.DAT''"
  let ?F = "(example_files
        \<lparr>DEPTH_OUT :=
           Some [[field 1 1, field 0 0, field 0 0, field 1 1.5],
                 [field 2 2, field 0 0, field 10 10, field 0 0]],
         TIMDEP_HDF5 := Some example_store\<rparr>)"
  let ?M = "\<lparr>vertices =
         [\<lparr>vx = Num 5, vy = Num (- 5)\<rparr>, \<lparr>vx = Num 5, vy = Num 5\<rparr>,
          \<lparr>vx = Num (- 5), vy = Num 5\<rparr>, \<lparr>vx = Num (- 5), vy = Num (- 5)\<rparr>,
          \<lparr>vx = Num 5, vy = Num 15\<rparr>, \<lparr>vx = Num (- 5), vy = Num 15\<rparr>],
       faces = [[0, 1, 2, 3], [1, 4, 5, 2]],
       datasetGroups = 
         [\<lparr>name = ''Bed Elevation'', uri = ''run/CADPTS.DAT'', isOnVertices = False,
            isScalar = True,
            datasets = [\<lparr>time = Num 0, dvalues = [Num 100, Num 101]\<rparr>]\<rparr>,
          \<lparr>name = ''Depth'', uri = ''run/TIMDEP.HDF5'', isOnVertices = False, isScalar = True,
            datasets = [\<lparr>time = Num 1, dvalues = [Num (3 / 2), Num (5 / 2)]\<rparr>]\<rparr>,
          \<lparr>name = ''Depth/Maximums'', uri = ''run/CADPTS.DAT'', isOnVertices = False,
            isScalar = True,
            datasets = [\<lparr>time = Num 0, dvalues = [Num (3 / 2), NaN]\<rparr>]\<rparr>,
          \<lparr>name = ''Water Level/Maximums'', uri = ''run/CADPTS.DAT'', isOnVertices = False,
            isScalar = True,
            datasets = [\<lparr>time = Num 0, dvalues = [Num (203 / 2), NaN]\<rparr>]\<rparr>]\<rparr>"
  let ?cells0 = "projr (parseCADPTSFile (CADPTS_DAT ?F) [])"
  let ?ec = "projr (parseFPLAINFile (FPLAIN_DAT ?F) ?cells0)"
  let ?size = "projr (calcCellSize (snd ?ec))"
  let ?mesh = "projr (addStaticDataset (fst ?ec) ''Bed Elevation'' ?rf
                  (createMesh (snd ?ec) (ddiv2 ?size)))"
  let ?depth = "(''Depth'',
                  \<lparr>attributes = [(''Grouptype'', AttrString ''DATASET SCALAR'')],
                   arrays = [(''Times'', [Num 1]), (''Values'', [Num 1.5, Num 2.5])]\<rparr>)"
  let ?g = "\<lparr>attributes = [],
             arrays = [(''Times'', [Num 1]), (''Values'', [Num 1, Num 1, Num 1, Num 1])]\<rparr>"
  have l: "load ?rf ?F = Inr ?M"
    by (simp add: load_def example_defs geometry_defs dataset_defs reader_defs upt_rec Let_def
        eval_nat_numeral)
  have h1: "parseCADPTSFile (CADPTS_DAT ?F) [] = Inr ?cells0"
    by (simp add: example_defs geometry_defs)
  have h2: "parseFPLAINFile (FPLAIN_DAT ?F) ?cells0 = Inr (fst ?ec, snd ?ec)"
    by (simp add: example_defs geometry_defs)
  have h3: "calcCellSize (snd ?ec) = Inr ?size"
    by (simp add: example_defs geometry_defs upt_rec)
  have h4: "addStaticDataset (fst ?ec) ''Bed Elevation'' ?rf
              (createMesh (snd ?ec) (ddiv2 ?size)) = Inr ?mesh"
    by (simp add: example_defs geometry_defs dataset_defs upt_rec Let_def)
  have h5: "TIMDEP_HDF5 ?F = Some example_store"
    by (simp add: example_files_def)
  have h6: "fileValid example_store"
    by (simp add: example_store_def)
  have h7: "resultsGroup example_store =
      Some \<lparr>rg_attributes = [(''Grouptype'', AttrString ''Generic'')],
            subgroups = [?depth, (''Velocity'', ?g)]\<rparr>"
    by (simp add: example_store_def)
  have h8: "subgroups \<lparr>rg_attributes = [(''Grouptype'', AttrString ''Generic'')],
            subgroups = [?depth, (''Velocity'', ?g)]\<rparr> = [?depth] @ (''Velocity'', ?g) # []"
    by simp
  have h9: "\<forall>(n', g')\<in>set [?depth].
      parseHDF5_group ?mesh (fileNameFromDir ?rf ''TIMDEP.HDF5'') n' g' \<noteq> None"
    by (simp add: example_defs geometry_defs dataset_defs reader_defs upt_rec Let_def)
  have h10: "parseHDF5_group ?mesh (fileNameFromDir ?rf ''TIMDEP.HDF5'') ''Velocity'' ?g = None"
    by (simp add: parseHDF5_group_def)
  note t = load_binary_failure_keeps_groups [OF h1 h2 h3 h4 h5 h6 h7 h8 h9 h10,
      THEN conjunct2, rule_format, OF l]
  then obtain bed partial others where
    "datasetGroups ?M = bed # partial @ others" "name bed = ''Bed Elevation''"
    "map name partial = map fst [?depth]"
    "\<forall>p\<in>set partial. uri p = fileNameFromDir ?rf ''TIMDEP.HDF5''"
    "\<forall>t\<in>set others. uri t = ?rf"
    by blast
  moreover have "fileNameFromDir ?rf ''TIMDEP.HDF5'' = ''run/TIMDEP.HDF5''"
    by (simp add: fileNameFromDir_def dirName_def pathJoin_def)
  ultimately have "\<exists>bed partial others.
      datasetGroups ?M = bed # partial @ others \<and>
      name bed = ''Bed Elevation'' \<and> map name partial = [''Depth''] \<and>
      list_all (\<lambda>p. uri p = ''run/TIMDEP.HDF5'') partial \<and>
      list_all (\<lambda>t. uri t = ''run/CADPTS.DAT'') others"
    by (intro exI [of _ bed] exI [of _ partial] exI [of _ others]) (simp add: list_all_iff)
  with l show ?thesis
    by blast
qed

subsection \<open>The static maximum-velocity reader\<close>

lemma parseVELFP_lines_result:
  assumes "\<forall>l\<in>set ls. length l = 4" "k + length ls \<le> n" "length buf = n"
  shows "parseVELFP_lines n ls (k, buf) =
    Inr (map (\<lambda>i. if k \<le> i \<and> i < k + length ls then getDouble (toDouble (ls ! (i - k) ! 3)) else buf ! i) [0..<n])"
  using assms
proof (induction ls arbitrary: k buf)
  case Nil
  then show ?case by (auto intro!: nth_equalityI)
next
  case (Cons l ls)
  have "parseVELFP_lines n (l # ls) (k, buf) = parseVELFP_lines n ls (k + 1, buf[k := getDouble (toDouble (l ! 3))])"
    using Cons.prems by (simp add: Let_def)
  also have "\<dots> = Inr (map (\<lambda>i. if k + 1 \<le> i \<and> i < k + 1 + length ls then getDouble (toDouble (ls ! (i - (k + 1)) ! 3))
       else buf[k := getDouble (toDouble (l ! 3))] ! i) [0..<n])"
    using Cons.prems by (intro Cons.IH) auto
  also have "\<dots> = Inr (map (\<lambda>i. if k \<le> i \<and> i < k + length (l # ls) then getDouble (toDouble ((l # ls) ! (i - k) ! 3)) else buf ! i) [0..<n])"
    using Cons.prems by (auto simp: nth_list_update nth_Cons' )
  finally show ?case .
qed

lemma parseVELOC_lines_result:
  assumes "\<forall>l\<in>set ls. length l = 4" "k + length ls \<le> n" "length buf = n"
  shows "parseVELOC_lines n ls (k, buf) =
    Inr (map (\<lambda>i. if k \<le> i \<and> i < k + length ls \<and> \<not> isnan (getDouble (toDouble (ls ! (i - k) ! 3)))
                   then getDouble (toDouble (ls ! (i - k) ! 3)) else buf ! i) [0..<n])"
  using assms
proof (induction ls arbitrary: k buf)
  case Nil
  then show ?case by (auto intro!: nth_equalityI)
next
  case (Cons l ls)
  let ?v = "getDouble (toDouble (l ! 3))"
  let ?buf = "if isnan ?v then buf else buf[k := ?v]"
  have "parseVELOC_lines n (l # ls) (k, buf) = parseVELOC_lines n ls (k + 1, ?buf)"
    using Cons.prems by (simp add: Let_def)
  also have "\<dots> = Inr (map (\<lambda>i. if k + 1 \<le> i \<and> i < k + 1 + length ls \<and> \<not> isnan (getDouble (toDouble (ls ! (i - (k + 1)) ! 3)))
       then getDouble (toDouble (ls ! (i - (k + 1)) ! 3))
       else ?buf ! i) [0..<n])"
    using Cons.prems by (intro Cons.IH) auto
  also have "\<dots> = Inr (map (\<lambda>i. if k \<le> i \<and> i < k + length (l # ls) \<and> \<not> isnan (getDouble (toDouble ((l # ls) ! (i - k) ! 3)))
       then getDouble (toDouble ((l # ls) ! (i - k) ! 3)) else buf ! i) [0..<n])"
    using Cons.prems by (auto simp: nth_list_update nth_Cons')
  finally show ?case .
qed

text \<open>
  Claim C5 as stated fails. With \<open>VELFP.OUT\<close> present and well-formed and
  \<open>VELOC.OUT\<close> absent, the load returns the mesh with the group \<open>Bed Elevation\<close>
  only: no maximum-velocity group is produced.
\<close>

theorem load_velfp_without_veloc:
  "load ''run/CADPTS.DAT''
     (example_files
        \<lparr>VELFP_OUT :=
           Some [[field 1 1, field 0 0, field 0 0, field 2 2],
                 [field 2 2, field 0 0, field 10 10, field 2 2]]\<rparr>) =
     Inr \<lparr>vertices =
         [\<lparr>vx = Num 5, vy = Num (- 5)\<rparr>, \<lparr>vx = Num 5, vy = Num 5\<rparr>,
          \<lparr>vx = Num (- 5), vy = Num 5\<rparr>, \<lparr>vx = Num (- 5), vy = Num (- 5)\<rparr>,
          \<lparr>vx = Num 5, vy = Num 15\<rparr>, \<lparr>vx = Num (- 5), vy = Num 15\<rparr>],
       faces = [[0, 1, 2, 3], [1, 4, 5, 2]],
       datasetGroups = 
         [\<lparr>name = ''Bed Elevation'', uri = ''run/CADPTS.DAT'', isOnVertices = False,
            isScalar = True,
            datasets = [\<lparr>time = Num 0, dvalues = [Num 100, Num 101]\<rparr>]\<rparr>]\<rparr>"
  by (simp add: load_def example_defs geometry_defs dataset_defs reader_defs upt_rec Let_def
        eval_nat_numeral)

text \<open>
  Claim C5, amended. When \<open>VELFP.OUT\<close> and \<open>VELOC.OUT\<close> are both present and
  well-formed (four fields a line, one line per face for the floodplain file, at most
  one per face for the channel file), the reader adds one static scalar group
  \<open>Velocity/Maximums\<close>; the value of a face is the channel value where that decodes to a
  number and the floodplain value otherwise. When \<open>VELOC.OUT\<close> is absent the reader
  adds no group.
\<close>

theorem parseVELFPVELOCFile_combined:
  assumes "length velfp = facesCount mesh" "\<forall>l\<in>set velfp. length l = 4"
    and "length veloc \<le> facesCount mesh" "\<forall>l\<in>set veloc. length l = 4"
  shows "parseVELFPVELOCFile datFileName (Some velfp) (Some veloc) mesh =
      Inr (mesh\<lparr>datasetGroups := datasetGroups mesh @
        [\<lparr>name = ''Velocity/Maximums'', uri = datFileName, isOnVertices = False, isScalar = True,
          datasets = [\<lparr>time = Num 0,
            dvalues = map (\<lambda>i. if i < length veloc \<and> \<not> isnan (getDouble (toDouble (veloc ! i ! 3)))
                               then getDouble (toDouble (veloc ! i ! 3))
                               else getDouble (toDouble (velfp ! i ! 3))) [0..<facesCount mesh]\<rparr>]\<rparr>]\<rparr>) \<and>
    parseVELFPVELOCFile datFileName (Some velfp) None mesh = Inr mesh"
proof -
  let ?n = "facesCount mesh"
  have 1: "parseVELFP_lines ?n velfp (0, replicate ?n (Num 0)) = Inr (map (\<lambda>i. getDouble (toDouble (velfp ! i ! 3))) [0..<?n])"
    using assms(1,2) by (subst parseVELFP_lines_result) auto
  have 2: "parseVELOC_lines ?n veloc (0, map (\<lambda>i. getDouble (toDouble (velfp ! i ! 3))) [0..<?n]) =
     Inr (map (\<lambda>i. if i < length veloc \<and> \<not> isnan (getDouble (toDouble (veloc ! i ! 3)))
                               then getDouble (toDouble (veloc ! i ! 3))
                               else getDouble (toDouble (velfp ! i ! 3))) [0..<?n])"
    using assms(3,4) by (subst parseVELOC_lines_result) auto
  show ?thesis
    by (simp add: parseVELFPVELOCFile_def 1 2 addStaticDataset_def newDatasetGroup_def valuesCount_def Let_def)
qed

theorem parseVELFPVELOCFile_combined_witness:
  "parseVELFPVELOCFile ''run/CADPTS.DAT''
     (Some [[field 1 1, field 0 0, field 0 0, field 2 2],
            [field 2 2, field 0 0, field 10 10, field 2 2]])
     (Some [[field 1 1, field 0 0, field 0 0, field 0 0],
            [field 2 2, field 0 0, field 10 10, field 3 3]])
     \<lparr>vertices =
         [\<lparr>vx = Num 5, vy = Num (- 5)\<rparr>, \<lparr>vx = Num 5, vy = Num 5\<rparr>,
          \<lparr>vx = Num (- 5), vy = Num 5\<rparr>, \<lparr>vx = Num (- 5), vy = Num (- 5)\<rparr>,
          \<lparr>vx = Num 5, vy = Num 15\<rparr>, \<lparr>vx = Num (- 5), vy = Num 15\<rparr>],
       faces = [[0, 1, 2, 3], [1, 4, 5, 2]],
       datasetGroups = 
         [\<lparr>name = ''Bed Elevation'', uri = ''run/CADPTS.DAT'', isOnVertices = False,
            isScalar = True,
            datasets = [\<lparr>time = Num 0, dvalues = [Num 100, Num 101]\<rparr>]\<rparr>]\<rparr> =
     Inr \<lparr>vertices =
         [\<lparr>vx = Num 5, vy = Num (- 5)\<rparr>, \<lparr>vx = Num 5, vy = Num 5\<rparr>,
          \<lparr>vx = Num (- 5), vy = Num 5\<rparr>, \<lparr>vx = Num (- 5), vy = Num (- 5)\<rparr>,
          \<lparr>vx = Num 5, vy = Num 15\<rparr>, \<lparr>vx = Num (- 5), vy = Num 15\<rparr>],
       faces = [[0, 1, 2, 3], [1, 4, 5, 2]],
       datasetGroups = 
         [\<lparr>name = ''Bed Elevation'', uri = ''run/CADPTS.DAT'', isOnVertices = False,
            isScalar = True,
            datasets = [\<lparr>time = Num 0, dvalues = [Num 100, Num 101]\<rparr>]\<rparr>,
          \<lparr>name = ''Velocity/Maximums'', uri = ''run/CADPTS.DAT'', isOnVertices = False,
            isScalar = True,
            datasets = [\<lparr>time = Num 0, dvalues = [Num 2, Num 3]\<rparr>]\<rparr>]\<rparr>"
proof -
  let ?velfp = "[[field 1 1, field 0 0, field 0 0, field 2 2],
            [field 2 2, field 0 0, field 10 10, field 2 2]]"
  let ?veloc = "[[field 1 1, field 0 0, field 0 0, field 0 0],
            [field 2 2, field 0 0, field 10 10, field 3 3]]"
  let ?mesh = "\<lparr>vertices =
         [\<lparr>vx = Num 5, vy = Num (- 5)\<rparr>, \<lparr>vx = Num 5, vy = Num 5\<rparr>,
          \<lparr>vx = Num (- 5), vy = Num 5\<rparr>, \<lparr>vx = Num (- 5), vy = Num (- 5)\<rparr>,
          \<lparr>vx = Num 5, vy = Num 15\<rparr>, \<lparr>vx = Num (- 5), vy = Num 15\<rparr>],
       faces = [[0, 1, 2, 3], [1, 4, 5, 2]],
       datasetGroups = 
         [\<lparr>name = ''Bed Elevation'', uri = ''run/CADPTS.DAT'', isOnVertices = False,
            isScalar = True,
            datasets = [\<lparr>time = Num 0, dvalues = [Num 100, Num 101]\<rparr>]\<rparr>]\<rparr>"
  have h1: "length ?velfp = facesCount ?mesh"
    by (simp add: facesCount_def)
  have h2: "\<forall>l\<in>set ?velfp. length l = 4"
    by simp
  have h3: "length ?veloc \<le> facesCount ?mesh"
    by (simp add: facesCount_def)
  have h4: "\<forall>l\<in>set ?veloc. length l = 4"
    by simp
  from parseVELFPVELOCFile_combined [OF h1 h2 h3 h4, of "''run/CADPTS.DAT''", THEN conjunct1]
  show ?thesis
    by (simp add: facesCount_def field_def binary64_exact getDouble_def equals_def
        FLO2D_NAN_def MDAL_NAN_def upt_rec)
qed

end
